theory Spec2Isabelle
  imports Complex_Main "HOL-Library.Sublist"
begin

section \<open>Hydrogen gas cooler design tool: the page script of app.py\<close>

text \<open>
  The script is one Streamlit page. Its numbers are Python floats. The whole handler is
  modelled in exact arithmetic: a float is a real, rounding and overflow are left out, and
  every exception the arithmetic can raise is a branch of the model. Three kinds of number
  occur in the handler:

  \<^item> Python floats, whose division raises ZeroDivisionError on a zero divisor;
  \<^item> Python complex numbers, which a float power with a negative base and a
    fractional exponent produces, and whose division raises in the same way;
  \<^item> numpy float64 values (results of \<open>np.log\<close>, \<open>np.sqrt\<close> and everything computed from
    them), whose operations never raise and give an infinity or NaN instead.

  What depends on rounding (the tube count, the achieved velocity, the energy balance of
  the water flow) is stated on a second model, of lines 116 to 144 in float64 arithmetic.
\<close>

subsection \<open>Exceptions and numbers\<close>

datatype exn = ZeroDivisionError | ValueError | OverflowError

definition bindE :: "exn + 'a \<Rightarrow> ('a \<Rightarrow> exn + 'b) \<Rightarrow> exn + 'b" where
  "bindE m f = (case m of Inl e \<Rightarrow> Inl e | Inr x \<Rightarrow> f x)"

text \<open>A Python number: a float or a complex, both finite.\<close>

datatype pynum = Flt real | Cpx complex

fun to_c :: "pynum \<Rightarrow> complex" where
  "to_c (Flt x) = of_real x"
| "to_c (Cpx z) = z"

fun py_mul :: "pynum \<Rightarrow> pynum \<Rightarrow> pynum" where
  "py_mul (Flt x) (Flt y) = Flt (x * y)"
| "py_mul a b = Cpx (to_c a * to_c b)"

fun py_add :: "pynum \<Rightarrow> pynum \<Rightarrow> pynum" where
  "py_add (Flt x) (Flt y) = Flt (x + y)"
| "py_add a b = Cpx (to_c a + to_c b)"

fun py_quot :: "pynum \<Rightarrow> pynum \<Rightarrow> pynum" where
  "py_quot (Flt x) (Flt y) = Flt (x / y)"
| "py_quot a b = Cpx (to_c a / to_c b)"

definition py_div :: "pynum \<Rightarrow> pynum \<Rightarrow> exn + pynum" where
  "py_div a b = (if to_c b = 0 then Inl ZeroDivisionError else Inr (py_quot a b))"

text \<open>Division of two Python floats.\<close>

definition py_fdiv :: "real \<Rightarrow> real \<Rightarrow> exn + real" where
  "py_fdiv a b = (if b = 0 then Inl ZeroDivisionError else Inr (a / b))"

text \<open>
  \<open>x ** y\<close> for floats, with a positive fractional exponent \<open>y\<close> as at both call sites
  (0.8 and 0.4): a negative base gives the complex number of modulus \<open>|x| ** y\<close> and
  argument \<open>pi * y\<close>.
\<close>

definition py_pow :: "real \<Rightarrow> real \<Rightarrow> pynum" where
  "py_pow x y = (if x < 0 then Cpx (of_real ((- x) powr y) * cis (pi * y)) else Flt (x powr y))"

text \<open>
  A numpy value: finite, infinite (the sign of an infinity and of a zero is not tracked)
  or NaN. For a complex value \<open>NaN\<close> stands for any value with a non-finite part.
\<close>

datatype 'a ieee = Fin 'a | Inf | NaN

fun np_mul :: "('a::field) ieee \<Rightarrow> 'a ieee \<Rightarrow> 'a ieee" where
  "np_mul NaN _ = NaN"
| "np_mul _ NaN = NaN"
| "np_mul (Fin x) (Fin y) = Fin (x * y)"
| "np_mul (Fin x) Inf = (if x = 0 then NaN else Inf)"
| "np_mul Inf (Fin y) = (if y = 0 then NaN else Inf)"
| "np_mul Inf Inf = Inf"

fun np_div :: "('a::field) ieee \<Rightarrow> 'a ieee \<Rightarrow> 'a ieee" where
  "np_div NaN _ = NaN"
| "np_div _ NaN = NaN"
| "np_div (Fin x) (Fin y) = (if y = 0 then (if x = 0 then NaN else Inf) else Fin (x / y))"
| "np_div (Fin x) Inf = Fin 0"
| "np_div Inf (Fin y) = Inf"
| "np_div Inf Inf = NaN"

definition np_log :: "real \<Rightarrow> real ieee" where
  "np_log x = (if 0 < x then Fin (ln x) else if x = 0 then Inf else NaN)"

definition np_sqrt :: "real \<Rightarrow> real ieee" where
  "np_sqrt x = (if 0 \<le> x then Fin (sqrt x) else NaN)"

definition np_ceil :: "real \<Rightarrow> int" where
  "np_ceil x = \<lceil>x\<rceil>"

text \<open>
  A value that gets formatted: a float, of Python or of numpy, or a complex. \<open>A_required\<close> is
  a numpy float64 when \<open>U\<close> is a float and a Python complex when \<open>U\<close> is complex.
\<close>

datatype number = F64 "real ieee" | C128 "complex ieee"

fun num_of :: "pynum \<Rightarrow> number" where
  "num_of (Flt x) = F64 (Fin x)"
| "num_of (Cpx z) = C128 (Fin z)"

subsection \<open>Inputs and the fluid property provider\<close>

record inputs =
  flow_hot_nm3_hr :: real
  T_hot_in_C :: real
  T_hot_out_C :: real
  P_hot_bar :: real
  T_cold_in_C :: real
  T_cold_out_C :: real
  P_cold_bar :: real
  auto_water :: bool
  m_dot_cold_widget :: real
  D_i :: real
  t_wall :: real
  velocity_target :: real
  passes :: int

text \<open>
  \<open>PropsSI(output, name1, value1, name2, value2, fluid)\<close> of CoolProp is an external
  library: a parameter of the model, which returns a float or raises.
\<close>

type_synonym props = "string \<Rightarrow> string \<Rightarrow> real \<Rightarrow> string \<Rightarrow> real \<Rightarrow> string \<Rightarrow> exn + real"

subsection \<open>The calculation section: the body of the \<open>try\<close> block\<close>

text \<open>The local variables of the handler once the calculation has run through.\<close>

record locals =
  T_hot_in :: real
  T_hot_out :: real
  T_cold_in :: real
  T_cold_out :: real
  P_hot :: real
  P_cold :: real
  flow_hot_m3_s :: real
  rho_h :: real
  Cp_h :: real
  mu_h :: real
  k_h :: real
  Pr_h :: real
  m_dot_h :: real
  Q :: real
  m_dot_cold :: real
  A_single :: real
  N_per_pass :: int
  N_total :: int
  velocity :: real
  Re_h :: real
  Nu_h :: pynum
  h_hot :: pynum
  U :: pynum
  deltaT1 :: real
  deltaT2 :: real
  LMTD :: "real ieee"
  F :: real
  A_required :: number
  D_o :: real
  D_shell :: "real ieee"

text \<open>Hydrogen properties: the five lookups at the hot inlet state, in the source's order.\<close>

definition hydrogen_properties :: "props \<Rightarrow> real \<Rightarrow> real \<Rightarrow> exn + (real \<times> real \<times> real \<times> real \<times> real)" where
  "hydrogen_properties PropsSI T p =
     bindE (PropsSI ''D'' ''T'' T ''P'' p ''Hydrogen'') (\<lambda>rho.
     bindE (PropsSI ''C'' ''T'' T ''P'' p ''Hydrogen'') (\<lambda>Cp.
     bindE (PropsSI ''V'' ''T'' T ''P'' p ''Hydrogen'') (\<lambda>mu.
     bindE (PropsSI ''L'' ''T'' T ''P'' p ''Hydrogen'') (\<lambda>k.
     bindE (PropsSI ''PRANDTL'' ''T'' T ''P'' p ''Hydrogen'') (\<lambda>Pr.
     Inr (rho, Cp, mu, k, Pr))))))"

text \<open>Auto water calculation: \<open>m_dot_cold\<close> keeps the widget's value unless the box is ticked.\<close>

definition water_flow :: "props \<Rightarrow> bool \<Rightarrow> real \<Rightarrow> real \<Rightarrow> real \<Rightarrow> real \<Rightarrow> real \<Rightarrow> exn + real" where
  "water_flow PropsSI auto widget q Tc_in Tc_out Pc =
     (if auto then
        bindE (PropsSI ''C'' ''T'' Tc_in ''P'' Pc ''Water'') (\<lambda>Cp_water.
        py_fdiv q (Cp_water * (Tc_out - Tc_in)))
      else Inr widget)"

text \<open>Tube design.\<close>

definition single_tube_area :: "real \<Rightarrow> real" where
  "single_tube_area d = pi * d\<^sup>2 / 4"

definition tubes_per_pass :: "real \<Rightarrow> real \<Rightarrow> real \<Rightarrow> real \<Rightarrow> exn + int" where
  "tubes_per_pass m rho v_target a =
     bindE (py_fdiv m (rho * v_target * a)) (\<lambda>raw. Inr (np_ceil raw))"

definition tube_velocity :: "real \<Rightarrow> real \<Rightarrow> int \<Rightarrow> real \<Rightarrow> exn + real" where
  "tube_velocity m rho n a = py_fdiv m (rho * of_int n * a)"

text \<open>Heat transfer coefficients.\<close>

definition h_shell :: real where "h_shell = 3000"
definition Rf_i :: real where "Rf_i = 0.0001"
definition Rf_o :: real where "Rf_o = 0.0002"
definition k_tube :: real where "k_tube = 16"

definition nusselt :: "real \<Rightarrow> real \<Rightarrow> pynum" where
  "nusselt re pr = py_mul (py_mul (Flt 0.023) (py_pow re 0.8)) (py_pow pr 0.4)"

definition film_coefficient :: "pynum \<Rightarrow> real \<Rightarrow> real \<Rightarrow> exn + pynum" where
  "film_coefficient nu k d = py_div (py_mul nu (Flt k)) (Flt d)"

definition overall_U :: "pynum \<Rightarrow> real \<Rightarrow> exn + pynum" where
  "overall_U h tw =
     bindE (py_div (Flt 1) h) (\<lambda>r_hot.
     bindE (py_fdiv tw k_tube) (\<lambda>r_wall.
     bindE (py_fdiv 1 h_shell) (\<lambda>r_shell.
     py_div (Flt 1)
       (py_add (py_add (py_add (py_add r_hot (Flt Rf_i)) (Flt r_wall)) (Flt r_shell)) (Flt Rf_o)))))"

text \<open>LMTD: a Python float division, then numpy's logarithm and numpy's division.\<close>

definition lmtd :: "real \<Rightarrow> real \<Rightarrow> exn + real ieee" where
  "lmtd dT1 dT2 =
     bindE (py_fdiv dT1 dT2) (\<lambda>ratio. Inr (np_div (Fin (dT1 - dT2)) (np_log ratio)))"

definition correction_factor :: "int \<Rightarrow> real" where
  "correction_factor p = (if p = 1 then 1 else 0.85)"

text \<open>
  \<open>A_required = Q/(U*F*LMTD)\<close>. With a float \<open>U\<close> the product with the numpy value \<open>LMTD\<close>
  is a numpy value and so is the quotient: nothing raises. With a complex \<open>U\<close> the
  product and the quotient are Python's complex operations, and a zero divisor raises.
\<close>

definition required_area :: "real \<Rightarrow> pynum \<Rightarrow> real \<Rightarrow> real ieee \<Rightarrow> exn + number" where
  "required_area q u f l =
     (case py_mul u (Flt f) of
        Flt uf \<Rightarrow> Inr (F64 (np_div (Fin q) (np_mul (Fin uf) l)))
      | Cpx c \<Rightarrow>
          (case l of
             Fin x \<Rightarrow>
               if c * of_real x = 0 then Inl ZeroDivisionError
               else Inr (C128 (Fin (of_real q / (c * of_real x))))
           | _ \<Rightarrow> Inr (C128 NaN)))"

definition shell_diameter :: "real \<Rightarrow> int \<Rightarrow> exn + real ieee" where
  "shell_diameter d_o n =
     bindE (py_fdiv (of_int n) (0.785 * 0.9)) (\<lambda>x. Inr (np_mul (Fin d_o) (np_sqrt x)))"

definition sizing :: "props \<Rightarrow> inputs \<Rightarrow> exn + locals" where
  "sizing PropsSI i =
    (let T_hot_in' = T_hot_in_C i + 273.15;
         T_hot_out' = T_hot_out_C i + 273.15;
         T_cold_in' = T_cold_in_C i + 273.15;
         T_cold_out' = T_cold_out_C i + 273.15;
         P_hot' = P_hot_bar i * 100000;
         P_cold' = P_cold_bar i * 100000;
         flow' = flow_hot_nm3_hr i / 3600
     in
     bindE (hydrogen_properties PropsSI T_hot_in' P_hot') (\<lambda>(rho, Cp, mu, k, Pr).
     let m = rho * flow';
         q = m * Cp * (T_hot_in' - T_hot_out')
     in
     bindE (water_flow PropsSI (auto_water i) (m_dot_cold_widget i) q T_cold_in' T_cold_out' P_cold')
       (\<lambda>m_cold.
     let a = single_tube_area (D_i i) in
     bindE (tubes_per_pass m rho (velocity_target i) a) (\<lambda>n.
     let n_total = n * passes i in
     bindE (tube_velocity m rho n a) (\<lambda>v.
     bindE (py_fdiv (rho * v * D_i i) mu) (\<lambda>re.
     let nu = nusselt re Pr in
     bindE (film_coefficient nu k (D_i i)) (\<lambda>h.
     bindE (overall_U h (t_wall i)) (\<lambda>u.
     let dT1 = T_hot_in' - T_cold_out';
         dT2 = T_hot_out' - T_cold_in'
     in
     bindE (lmtd dT1 dT2) (\<lambda>l.
     let f = correction_factor (passes i) in
     bindE (required_area q u f l) (\<lambda>area.
     let d_o = D_i i + 2 * t_wall i in
     bindE (shell_diameter d_o n_total) (\<lambda>d_shell.
     Inr \<lparr> T_hot_in = T_hot_in', T_hot_out = T_hot_out',
           T_cold_in = T_cold_in', T_cold_out = T_cold_out',
           P_hot = P_hot', P_cold = P_cold', flow_hot_m3_s = flow',
           rho_h = rho, Cp_h = Cp, mu_h = mu, k_h = k, Pr_h = Pr,
           m_dot_h = m, Q = q, m_dot_cold = m_cold,
           A_single = a, N_per_pass = n, N_total = n_total, velocity = v,
           Re_h = re, Nu_h = nu, h_hot = h, U = u,
           deltaT1 = dT1, deltaT2 = dT2, LMTD = l, F = f, A_required = area,
           D_o = d_o, D_shell = d_shell \<rparr>)))))))))))"

subsection \<open>Display of the results and the table of the PDF datasheet\<close>

text \<open>
  A formatted string is kept as its pieces: literal text, a value printed as it is, or a
  value printed with a fixed number of decimals (\<open>:.2f\<close>, \<open>:.1f\<close>). Formatting is a function
  of the piece, so equal pieces give equal text.
\<close>

datatype cell = Str string | RawFloat real | RawInt int | Fixed nat number

text \<open>The two bytes of the superscript two in the labels of the screen display.\<close>

definition sup2 :: string where
  "sup2 = [CHR 0xC2, CHR 0xB2]"

definition display :: "locals \<Rightarrow> cell list list" where
  "display r =
     [[Str ''Heat Duty: **'', Fixed 2 (F64 (Fin (Q r / 1000))), Str '' kW**''],
      [Str ''Cooling Water Flow: **'', Fixed 2 (F64 (Fin (m_dot_cold r))), Str '' kg/s**''],
      [Str ''Overall U: **'', Fixed 1 (num_of (U r)), Str ('' W/m'' @ sup2 @ ''-K**'')],
      [Str ''Required Area: **'', Fixed 2 (A_required r), Str ('' m'' @ sup2 @ ''**'')],
      [Str ''Total Tubes: **'', RawInt (N_total r), Str ''**''],
      [Str ''Shell Diameter: **'', Fixed 2 (F64 (D_shell r)), Str '' m**''],
      [Str ''Tube Velocity: **'', Fixed 2 (F64 (Fin (velocity r))), Str '' m/s**'']]"

definition table_data :: "inputs \<Rightarrow> locals \<Rightarrow> cell list list" where
  "table_data i r =
     [[Str ''Parameter'', Str ''Value''],
      [Str ''Hydrogen Flow (Nm3/hr)'', RawFloat (flow_hot_nm3_hr i)],
      [Str ''Heat Duty (kW)'', Fixed 2 (F64 (Fin (Q r / 1000)))],
      [Str ''Cooling Water Flow (kg/s)'', Fixed 2 (F64 (Fin (m_dot_cold r)))],
      [Str ''Overall U (W/m2-K)'', Fixed 1 (num_of (U r))],
      [Str ''Required Area (m2)'', Fixed 2 (A_required r)],
      [Str ''Total Tubes'', RawInt (N_total r)],
      [Str ''Shell Diameter (m)'', Fixed 2 (F64 (D_shell r))]]"

text \<open>
  The handler of the button "Run Hydrogen Cooler Design": the results and the table handed
  to the PDF library, or, from the \<open>except\<close> clause, "Calculation Error" with the exception.
\<close>

datatype design_out = Results "cell list list" "cell list list" | CalculationError exn

definition run_design :: "props \<Rightarrow> inputs \<Rightarrow> design_out" where
  "run_design PropsSI i =
     (case sizing PropsSI i of
        Inl e \<Rightarrow> CalculationError e
      | Inr r \<Rightarrow> Results (display r) (table_data i r))"

subsection \<open>Feedback section\<close>

text \<open>
  \<open>feedback.csv\<close> is absent or holds a header line and data lines, as \<open>to_csv\<close> writes them;
  the text encoding of a line is not modelled. Reading the file back is pandas'
  \<open>read_csv\<close>, an external library: a parameter of the model, which returns the frame it
  has parsed or raises (on a line with too many fields, say), and which need not return
  the values as they were written (it reads a name such as NA as a missing value).
\<close>

datatype field = Text string | Time nat

record csv =
  columns :: "string list"
  data :: "field list list"

definition submit_feedback :: "nat \<Rightarrow> string \<Rightarrow> string \<Rightarrow> csv option \<Rightarrow> csv option" where
  "submit_feedback now name feedback_text file =
     (if name \<noteq> [] \<and> feedback_text \<noteq> [] then
        (let row = [Time now, Text name, Text feedback_text] in
         case file of
           Some f \<Rightarrow> Some (f\<lparr>data := data f @ [row]\<rparr>)
         | None \<Rightarrow> Some \<lparr>columns = [''Timestamp'', ''Name'', ''Feedback''], data = [row]\<rparr>)
      else file)"

subsection \<open>One run of the script\<close>

record world =
  feedback_csv :: "csv option"
  clock :: nat

record widgets =
  inp :: inputs
  run_pressed :: bool
  name_input :: string
  feedback_input :: string
  submit_pressed :: bool

text \<open>
  What the page shows: the output of the design handler when its button was pressed, and
  under "Visitor Feedback" what \<open>read_csv\<close> made of the file when the file is present. An
  exception of \<open>read_csv\<close> is not caught; it ends the run and is shown in place of the frame.
\<close>

record 'f page =
  design :: "design_out option"
  visitor_feedback :: "(exn + 'f) option"

definition script :: "props \<Rightarrow> (csv \<Rightarrow> exn + 'f) \<Rightarrow> world \<Rightarrow> widgets \<Rightarrow> 'f page \<times> world" where
  "script PropsSI read_csv w u =
     (let d = (if run_pressed u then Some (run_design PropsSI (inp u)) else None);
          file = (if submit_pressed u
                  then submit_feedback (clock w) (name_input u) (feedback_input u) (feedback_csv w)
                  else feedback_csv w)
      in (\<lparr>design = d, visitor_feedback = map_option read_csv file\<rparr>,
          w\<lparr>feedback_csv := file\<rparr>))"

subsection \<open>A sample provider and the default inputs\<close>

text \<open>
  The property library is not part of the repository. For concrete runs a provider with
  round values of the order of hydrogen at 16 bar and of liquid water stands in for it.
\<close>

definition sample_props :: props where
  "sample_props out n1 T n2 p fluid =
     (if fluid = ''Water'' then Inr 4180
      else if out = ''D'' then Inr 1.2
      else if out = ''C'' then Inr 14400
      else if out = ''V'' then Inr 0.00001
      else if out = ''L'' then Inr 0.2
      else Inr 0.7)"

text \<open>The values the widgets start with.\<close>

definition default_inputs :: inputs where
  "default_inputs =
     \<lparr> flow_hot_nm3_hr = 750, T_hot_in_C = 80, T_hot_out_C = 40, P_hot_bar = 16,
       T_cold_in_C = 35, T_cold_out_C = 40, P_cold_bar = 3,
       auto_water = True, m_dot_cold_widget = 7,
       D_i = 0.025, t_wall = 0.002, velocity_target = 9, passes = 1 \<rparr>"

text \<open>
  Variations of the defaults: hydrogen colder than the water at both ends; the hydrogen
  outlet at the water inlet temperature; hydrogen leaving hotter than it enters; no
  hydrogen flow.
\<close>

definition crossed_inputs :: inputs where
  "crossed_inputs = default_inputs\<lparr>T_hot_in_C := 20, T_hot_out_C := 25\<rparr>"

definition pinched_inputs :: inputs where
  "pinched_inputs = default_inputs\<lparr>T_hot_out_C := 35\<rparr>"

definition reversed_inputs :: inputs where
  "reversed_inputs =
     default_inputs\<lparr>T_hot_in_C := 40, T_hot_out_C := 80, T_cold_in_C := 20, T_cold_out_C := 30\<rparr>"


text \<open>The seven values the results display shows.\<close>

record sizing_result =
  res_Q :: real
  res_m_dot_cold :: real
  res_U :: pynum
  res_A_required :: number
  res_N_total :: int
  res_D_shell :: "real ieee"
  res_velocity :: real

definition result_of :: "locals \<Rightarrow> sizing_result" where
  "result_of r =
     \<lparr> res_Q = Q r, res_m_dot_cold = m_dot_cold r, res_U = U r, res_A_required = A_required r,
       res_N_total = N_total r, res_D_shell = D_shell r, res_velocity = velocity r \<rparr>"

text \<open>
  Reading the two outputs: the name of a displayed line is its text before the colon; a
  table has a field when the label of one of its rows below the header starts with the
  field's name.
\<close>

fun cell_text :: "cell \<Rightarrow> string" where
  "cell_text (Str s) = s"
| "cell_text _ = []"

definition screen_fields :: "cell list list \<Rightarrow> string list" where
  "screen_fields ls =
     map (\<lambda>l. case l of [] \<Rightarrow> [] | c # _ \<Rightarrow> takeWhile (\<lambda>x. x \<noteq> CHR '':'') (cell_text c)) ls"

definition table_has_field :: "cell list list \<Rightarrow> string \<Rightarrow> bool" where
  "table_has_field rows f =
     list_ex (\<lambda>row. case row of [] \<Rightarrow> False | c # _ \<Rightarrow> prefix f (cell_text c)) (tl rows)"

text \<open>
  A reader that returns the lines as they are, two states of the world and four states of
  the widgets.
\<close>

definition sample_read_csv :: "csv \<Rightarrow> exn + csv" where
  "sample_read_csv f = Inr f"

definition fresh_world :: world where
  "fresh_world = \<lparr>feedback_csv = None, clock = 0\<rparr>"

definition used_world :: world where
  "used_world =
     \<lparr>feedback_csv = Some \<lparr>columns = [''Timestamp'', ''Name'', ''Feedback''],
                            data = [[Time 5, Text ''Ada'', Text ''ok'']]\<rparr>,
      clock = 9\<rparr>"

definition run_only :: widgets where
  "run_only =
     \<lparr>inp = default_inputs, run_pressed = True,
      name_input = [], feedback_input = [], submit_pressed = False\<rparr>"

definition run_and_submit :: widgets where
  "run_and_submit =
     \<lparr>inp = default_inputs, run_pressed = True,
      name_input = ''Bo'', feedback_input = ''fine'', submit_pressed = True\<rparr>"

definition blank_submit :: widgets where
  "blank_submit =
     \<lparr>inp = default_inputs, run_pressed = False,
      name_input = [], feedback_input = ''fine'', submit_pressed = True\<rparr>"

definition blank_text_submit :: widgets where
  "blank_text_submit =
     \<lparr>inp = default_inputs, run_pressed = False,
      name_input = ''Bo'', feedback_input = [], submit_pressed = True\<rparr>"

section \<open>Lines 116 to 144 in float64 arithmetic\<close>

text \<open>
  The tube count, the achieved velocity and the water flow depend on how the quotients are
  rounded. For them the calculation is modelled a second time, from the unit conversion
  to the tube velocity (lines 116 to 144), with every operation rounded as Python's floats
  are: to the nearest binary64 number, ties to even, with gradual underflow, and with
  overflow to an infinity. Every run of the handler that succeeds has run through these
  lines, and no later line assigns to the variables they set.
\<close>

subsection \<open>Rounding to binary64\<close>

text \<open>A float: a real number, an infinity or NaN. The sign of a zero is not tracked.\<close>

datatype f64 = Num real | PosInf | NegInf | NotANumber

text \<open>Rounding a real to the nearest integer, a tie to the even one.\<close>

definition rne :: "real \<Rightarrow> int" where
  "rne y = (let n = \<lfloor>y\<rfloor>; d = y - of_int n
            in if d < 1/2 then n else if 1/2 < d then n + 1 else if even n then n else n + 1)"

text \<open>
  The exponent of a real in binary64, held at \<open>-1022\<close> for the subnormal numbers, and the
  spacing of the floats around it (52 fraction bits).
\<close>

definition f64_exponent :: "real \<Rightarrow> int" where
  "f64_exponent x = max \<lfloor>log 2 \<bar>x\<bar>\<rfloor> (- 1022)"

definition ulp :: "real \<Rightarrow> real" where
  "ulp x = 2 powi (f64_exponent x - 52)"

text \<open>
  The float nearest to a real. A result whose magnitude reaches \<open>2^1024\<close> has overflowed and
  is the infinity of the real's sign.
\<close>

definition round_f64 :: "real \<Rightarrow> f64" where
  "round_f64 x =
     (if x = 0 then Num 0
      else let q = of_int (rne (x / ulp x)) * ulp x
           in if 2 ^ 1024 \<le> \<bar>q\<bar> then (if 0 < x then PosInf else NegInf) else Num q)"

text \<open>The reals in the range of the normal floats, where rounding has a small relative error.\<close>

definition normal64 :: "real \<Rightarrow> bool" where
  "normal64 x \<longleftrightarrow> 2 powi (- 1022) \<le> \<bar>x\<bar> \<and> \<bar>x\<bar> \<le> 2 powi 1023"

definition unit_roundoff :: real where
  "unit_roundoff = 2 powi (- 53)"

text \<open>The reals of magnitude between \<open>2^-100\<close> and \<open>2^100\<close>.\<close>

definition moderate :: "real \<Rightarrow> bool" where
  "moderate x \<longleftrightarrow> 2 powi (- 100) \<le> \<bar>x\<bar> \<and> \<bar>x\<bar> \<le> 2 powi 100"

subsection \<open>Float operations\<close>

text \<open>Negation, addition, subtraction and multiplication never raise.\<close>

fun f_neg :: "f64 \<Rightarrow> f64" where
  "f_neg (Num x) = Num (- x)"
| "f_neg PosInf = NegInf"
| "f_neg NegInf = PosInf"
| "f_neg NotANumber = NotANumber"

fun f_add :: "f64 \<Rightarrow> f64 \<Rightarrow> f64" where
  "f_add (Num x) (Num y) = round_f64 (x + y)"
| "f_add NotANumber _ = NotANumber"
| "f_add _ NotANumber = NotANumber"
| "f_add PosInf NegInf = NotANumber"
| "f_add NegInf PosInf = NotANumber"
| "f_add PosInf _ = PosInf"
| "f_add NegInf _ = NegInf"
| "f_add _ PosInf = PosInf"
| "f_add _ NegInf = NegInf"

definition f_sub :: "f64 \<Rightarrow> f64 \<Rightarrow> f64" where
  "f_sub a b = f_add a (f_neg b)"

fun is_neg :: "f64 \<Rightarrow> bool" where
  "is_neg (Num x) = (x < 0)"
| "is_neg NegInf = True"
| "is_neg _ = False"

definition signed_inf :: "bool \<Rightarrow> f64" where
  "signed_inf negative = (if negative then NegInf else PosInf)"

fun f_mul :: "f64 \<Rightarrow> f64 \<Rightarrow> f64" where
  "f_mul (Num x) (Num y) = round_f64 (x * y)"
| "f_mul NotANumber _ = NotANumber"
| "f_mul _ NotANumber = NotANumber"
| "f_mul a b =
     (if a = Num 0 \<or> b = Num 0 then NotANumber else signed_inf (is_neg a \<noteq> is_neg b))"

text \<open>
  The quotient by a divisor that is not zero, and Python's \<open>/\<close> on floats, which raises on a
  zero divisor before anything else.
\<close>

fun f_quot :: "f64 \<Rightarrow> f64 \<Rightarrow> f64" where
  "f_quot (Num x) (Num y) = round_f64 (x / y)"
| "f_quot NotANumber _ = NotANumber"
| "f_quot _ NotANumber = NotANumber"
| "f_quot (Num x) _ = Num 0"
| "f_quot a (Num y) = signed_inf (is_neg a \<noteq> (y < 0))"
| "f_quot _ _ = NotANumber"

definition py_div64 :: "f64 \<Rightarrow> f64 \<Rightarrow> exn + f64" where
  "py_div64 a b = (if b = Num 0 then Inl ZeroDivisionError else Inr (f_quot a b))"

text \<open>
  \<open>x ** 2\<close>: the rounded square, taking the power function of the C library to round
  correctly at the exponent 2. Python raises OverflowError when the result of a finite base
  overflows; an underflow raises nothing.
\<close>

fun py_sq :: "f64 \<Rightarrow> exn + f64" where
  "py_sq (Num x) = (case round_f64 (x * x) of Num q \<Rightarrow> Inr (Num q) | _ \<Rightarrow> Inl OverflowError)"
| "py_sq NotANumber = Inr NotANumber"
| "py_sq _ = Inr PosInf"

text \<open>
  \<open>int(np.ceil(x))\<close>: the ceiling of a finite float is exact; \<open>int\<close> raises OverflowError on
  an infinity and ValueError on NaN.
\<close>

fun py_int_ceil :: "f64 \<Rightarrow> exn + int" where
  "py_int_ceil (Num x) = Inr \<lceil>x\<rceil>"
| "py_int_ceil NotANumber = Inl ValueError"
| "py_int_ceil _ = Inl OverflowError"

text \<open>
  A decimal literal and the value of a number widget denote the float nearest to them; an
  integer operand of a float operation is converted to the float nearest to it.
\<close>

definition lit :: "real \<Rightarrow> f64" where
  "lit x = round_f64 x"

definition float_of_int :: "int \<Rightarrow> f64" where
  "float_of_int n = round_f64 (of_int n)"

text \<open>\<open>np.pi\<close>, the float nearest to pi.\<close>

definition np_pi :: f64 where
  "np_pi = Num (884279719003555 / 281474976710656)"

subsection \<open>The calculation up to the tube velocity\<close>

text \<open>The property provider takes and returns floats.\<close>

type_synonym props64 = "string \<Rightarrow> string \<Rightarrow> f64 \<Rightarrow> string \<Rightarrow> f64 \<Rightarrow> string \<Rightarrow> exn + f64"

text \<open>The local variables after line 144, and \<open>raw64\<close> for the argument of \<open>np.ceil\<close>.\<close>

record locals64 =
  T_hot_in64 :: f64
  T_hot_out64 :: f64
  T_cold_in64 :: f64
  T_cold_out64 :: f64
  P_hot64 :: f64
  P_cold64 :: f64
  flow_hot_m3_s64 :: f64
  rho_h64 :: f64
  Cp_h64 :: f64
  mu_h64 :: f64
  k_h64 :: f64
  Pr_h64 :: f64
  m_dot_h64 :: f64
  Q64 :: f64
  m_dot_cold64 :: f64
  A_single64 :: f64
  raw64 :: f64
  N_per_pass64 :: int
  N_total64 :: int
  velocity64 :: f64

definition hydrogen_properties64 :: "props64 \<Rightarrow> f64 \<Rightarrow> f64 \<Rightarrow> exn + (f64 \<times> f64 \<times> f64 \<times> f64 \<times> f64)" where
  "hydrogen_properties64 PropsSI T p =
     bindE (PropsSI ''D'' ''T'' T ''P'' p ''Hydrogen'') (\<lambda>rho.
     bindE (PropsSI ''C'' ''T'' T ''P'' p ''Hydrogen'') (\<lambda>Cp.
     bindE (PropsSI ''V'' ''T'' T ''P'' p ''Hydrogen'') (\<lambda>mu.
     bindE (PropsSI ''L'' ''T'' T ''P'' p ''Hydrogen'') (\<lambda>k.
     bindE (PropsSI ''PRANDTL'' ''T'' T ''P'' p ''Hydrogen'') (\<lambda>Pr.
     Inr (rho, Cp, mu, k, Pr))))))"

definition water_flow64 :: "props64 \<Rightarrow> bool \<Rightarrow> f64 \<Rightarrow> f64 \<Rightarrow> f64 \<Rightarrow> f64 \<Rightarrow> f64 \<Rightarrow> exn + f64" where
  "water_flow64 PropsSI auto widget q Tc_in Tc_out Pc =
     (if auto then
        bindE (PropsSI ''C'' ''T'' Tc_in ''P'' Pc ''Water'') (\<lambda>Cp_water.
        py_div64 q (f_mul Cp_water (f_sub Tc_out Tc_in)))
      else Inr widget)"

text \<open>\<open>np.pi * D_i**2 / 4\<close>: the square, the product with \<open>np.pi\<close>, the quotient by 4.\<close>

definition single_tube_area64 :: "f64 \<Rightarrow> exn + f64" where
  "single_tube_area64 d = bindE (py_sq d) (\<lambda>d2. py_div64 (f_mul np_pi d2) (lit 4))"

text \<open>\<open>m_dot_h / (rho_h * velocity_target * A_single)\<close>, the argument of \<open>np.ceil\<close>.\<close>

definition raw_tubes64 :: "f64 \<Rightarrow> f64 \<Rightarrow> f64 \<Rightarrow> f64 \<Rightarrow> exn + f64" where
  "raw_tubes64 m rho v_target a = py_div64 m (f_mul (f_mul rho v_target) a)"

text \<open>\<open>m_dot_h / (rho_h * N_per_pass * A_single)\<close>.\<close>

definition tube_velocity64 :: "f64 \<Rightarrow> f64 \<Rightarrow> int \<Rightarrow> f64 \<Rightarrow> exn + f64" where
  "tube_velocity64 m rho n a = py_div64 m (f_mul (f_mul rho (float_of_int n)) a)"

definition sizing64 :: "props64 \<Rightarrow> inputs \<Rightarrow> exn + locals64" where
  "sizing64 PropsSI i =
    (let T_hot_in' = f_add (lit (T_hot_in_C i)) (lit 273.15);
         T_hot_out' = f_add (lit (T_hot_out_C i)) (lit 273.15);
         T_cold_in' = f_add (lit (T_cold_in_C i)) (lit 273.15);
         T_cold_out' = f_add (lit (T_cold_out_C i)) (lit 273.15);
         P_hot' = f_mul (lit (P_hot_bar i)) (lit 100000);
         P_cold' = f_mul (lit (P_cold_bar i)) (lit 100000)
     in
     bindE (py_div64 (lit (flow_hot_nm3_hr i)) (lit 3600)) (\<lambda>flow'.
     bindE (hydrogen_properties64 PropsSI T_hot_in' P_hot') (\<lambda>(rho, Cp, mu, k, Pr).
     let m = f_mul rho flow';
         q = f_mul (f_mul m Cp) (f_sub T_hot_in' T_hot_out')
     in
     bindE (water_flow64 PropsSI (auto_water i) (lit (m_dot_cold_widget i)) q
              T_cold_in' T_cold_out' P_cold') (\<lambda>m_cold.
     bindE (single_tube_area64 (lit (D_i i))) (\<lambda>a.
     bindE (raw_tubes64 m rho (lit (velocity_target i)) a) (\<lambda>raw.
     bindE (py_int_ceil raw) (\<lambda>n.
     let n_total = n * passes i in
     bindE (tube_velocity64 m rho n a) (\<lambda>v.
     Inr \<lparr> T_hot_in64 = T_hot_in', T_hot_out64 = T_hot_out',
           T_cold_in64 = T_cold_in', T_cold_out64 = T_cold_out',
           P_hot64 = P_hot', P_cold64 = P_cold', flow_hot_m3_s64 = flow',
           rho_h64 = rho, Cp_h64 = Cp, mu_h64 = mu, k_h64 = k, Pr_h64 = Pr,
           m_dot_h64 = m, Q64 = q, m_dot_cold64 = m_cold,
           A_single64 = a, raw64 = raw, N_per_pass64 = n, N_total64 = n_total,
           velocity64 = v \<rparr>))))))))"

text \<open>
  The sample provider with its values as floats, and two variations of the defaults: a
  target velocity of 60.63045451119822 m/s, and a hydrogen inlet at 82 degrees.
\<close>

definition sample_props64 :: props64 where
  "sample_props64 out n1 T n2 p fluid =
     (if fluid = ''Water'' then Inr (lit 4180)
      else if out = ''D'' then Inr (lit 1.2)
      else if out = ''C'' then Inr (lit 14400)
      else if out = ''V'' then Inr (lit 0.00001)
      else if out = ''L'' then Inr (lit 0.2)
      else Inr (lit 0.7))"

definition fast_inputs :: inputs where
  "fast_inputs = default_inputs\<lparr>velocity_target := 60.63045451119822\<rparr>"

definition hotter_inputs :: inputs where
  "hotter_inputs = default_inputs\<lparr>T_hot_in_C := 82\<rparr>"

section \<open>Properties of the calculation in exact arithmetic, of the outputs and of the feedback\<close>

subsection \<open>Stepping through the calculation\<close>

lemma bindE_Inr_iff:
  "bindE m f = Inr y \<longleftrightarrow> (\<exists>x. m = Inr x \<and> f x = Inr y)"
  by (cases m) (simp_all add: bindE_def)

lemma py_fdiv_Inr_iff:
  "py_fdiv a b = Inr c \<longleftrightarrow> b \<noteq> 0 \<and> c = a / b"
  by (auto simp: py_fdiv_def)

text \<open>What a successful run has computed, step by step.\<close>

lemma sizing_InrD:
  assumes "sizing PropsSI i = Inr r"
  shows "\<exists>rho Cp mu k Pr.
    hydrogen_properties PropsSI (T_hot_in_C i + 273.15) (P_hot_bar i * 100000) = Inr (rho, Cp, mu, k, Pr)
    \<and> rho_h r = rho \<and> Cp_h r = Cp \<and> mu_h r = mu \<and> k_h r = k \<and> Pr_h r = Pr
    \<and> T_hot_in r = T_hot_in_C i + 273.15 \<and> T_hot_out r = T_hot_out_C i + 273.15
    \<and> T_cold_in r = T_cold_in_C i + 273.15 \<and> T_cold_out r = T_cold_out_C i + 273.15
    \<and> P_cold r = P_cold_bar i * 100000
    \<and> m_dot_h r = rho * (flow_hot_nm3_hr i / 3600)
    \<and> Q r = m_dot_h r * Cp * (T_hot_in r - T_hot_out r)
    \<and> water_flow PropsSI (auto_water i) (m_dot_cold_widget i) (Q r) (T_cold_in r) (T_cold_out r) (P_cold r)
        = Inr (m_dot_cold r)
    \<and> A_single r = single_tube_area (D_i i)
    \<and> tubes_per_pass (m_dot_h r) rho (velocity_target i) (A_single r) = Inr (N_per_pass r)
    \<and> N_total r = N_per_pass r * passes i
    \<and> tube_velocity (m_dot_h r) rho (N_per_pass r) (A_single r) = Inr (velocity r)
    \<and> deltaT1 r = T_hot_in r - T_cold_out r \<and> deltaT2 r = T_hot_out r - T_cold_in r
    \<and> lmtd (deltaT1 r) (deltaT2 r) = Inr (LMTD r)
    \<and> F r = correction_factor (passes i)
    \<and> overall_U (h_hot r) (t_wall i) = Inr (U r)
    \<and> required_area (Q r) (U r) (F r) (LMTD r) = Inr (A_required r)"
  using assms
  unfolding sizing_def Let_def
  by (auto simp: bindE_Inr_iff)

subsection \<open>Runs that succeed\<close>

lemma py_div_Flt:
  "py_div (Flt a) (Flt b) = (if b = 0 then Inl ZeroDivisionError else Inr (Flt (a / b)))"
  by (simp add: py_div_def)

lemma tubes_positive:
  assumes "0 < m" "0 < rho" "0 < v" "0 < a"
  shows "\<exists>n. tubes_per_pass m rho v a = Inr n \<and> 1 \<le> n \<and> m / (rho * v * a) \<le> of_int n"
proof -
  have d: "0 < rho * v * a" using assms by simp
  then have raw: "0 < m / (rho * v * a)" using assms by simp
  then have pos: "0 < \<lceil>m / (rho * v * a)\<rceil>" by (simp only: zero_less_ceiling)
  have "tubes_per_pass m rho v a = Inr \<lceil>m / (rho * v * a)\<rceil>"
    using d assms unfolding tubes_per_pass_def py_fdiv_def bindE_def np_ceil_def by simp
  moreover have "1 \<le> \<lceil>m / (rho * v * a)\<rceil>" using pos by linarith
  moreover have "m / (rho * v * a) \<le> of_int \<lceil>m / (rho * v * a)\<rceil>" by (rule le_of_int_ceiling)
  ultimately show ?thesis by blast
qed

lemma velocity_positive:
  assumes "0 < m" "0 < rho" "1 \<le> n" "0 < a"
  shows "\<exists>vel. tube_velocity m rho n a = Inr vel \<and> 0 < vel"
proof -
  have "0 < rho * of_int n * a" using assms by simp
  then show ?thesis using assms by (simp add: tube_velocity_def py_fdiv_def)
qed

lemma nusselt_positive:
  assumes "0 < re" "0 < pr"
  shows "\<exists>nu. nusselt re pr = Flt nu \<and> 0 < nu"
proof -
  have "nusselt re pr = Flt (0.023 * re powr 0.8 * pr powr 0.4)"
    using assms unfolding nusselt_def py_pow_def by simp
  moreover have "0 < 0.023 * re powr 0.8 * pr powr 0.4"
    using assms by simp
  ultimately show ?thesis by blast
qed

lemma film_positive:
  assumes "0 < nu" "0 < k" "0 < d"
  shows "\<exists>h. film_coefficient (Flt nu) k d = Inr (Flt h) \<and> 0 < h"
  using assms by (simp add: film_coefficient_def py_div_Flt)

lemma overall_U_positive:
  assumes "0 < h" "0 \<le> tw"
  shows "\<exists>u. overall_U (Flt h) tw = Inr (Flt u) \<and> 0 < u"
proof -
  have pos: "0 < 1 / h + Rf_i + tw / k_tube + 1 / h_shell + Rf_o"
    using assms by (simp add: Rf_i_def Rf_o_def k_tube_def h_shell_def add_pos_nonneg)
  have "overall_U (Flt h) tw = Inr (Flt (1 / (1 / h + Rf_i + tw / k_tube + 1 / h_shell + Rf_o)))"
    using assms pos
    by (simp add: overall_U_def py_div_Flt py_fdiv_def bindE_def k_tube_def h_shell_def)
  moreover have "0 < 1 / (1 / h + Rf_i + tw / k_tube + 1 / h_shell + Rf_o)"
    using pos by simp
  ultimately show ?thesis by blast
qed


lemma lmtd_Inr:
  assumes "dT2 \<noteq> 0"
  shows "lmtd dT1 dT2 = Inr (np_div (Fin (dT1 - dT2)) (np_log (dT1 / dT2)))"
  using assms by (simp add: lmtd_def py_fdiv_def bindE_def)

lemma required_area_Flt:
  "required_area q (Flt u) f l = Inr (F64 (np_div (Fin q) (np_mul (Fin (u * f)) l)))"
  by (simp add: required_area_def)

lemma shell_diameter_Inr:
  "shell_diameter d n = Inr (np_mul (Fin d) (np_sqrt (of_int n / (0.785 * 0.9))))"
  by (simp add: shell_diameter_def py_fdiv_def bindE_def)

text \<open>With positive properties, flow and geometry every step before the LMTD goes through.\<close>

lemma sizing_positive:
  assumes hp: "hydrogen_properties PropsSI (T_hot_in_C i + 273.15) (P_hot_bar i * 100000)
                 = Inr (rho, Cp, mu, k, Pr)"
    and props: "0 < rho" "0 < mu" "0 < k" "0 < Pr"
    and geom: "0 < flow_hot_nm3_hr i" "0 < velocity_target i" "0 < D_i i" "0 \<le> t_wall i"
    and wf: "water_flow PropsSI (auto_water i) (m_dot_cold_widget i)
               (rho * (flow_hot_nm3_hr i / 3600) * Cp * (T_hot_in_C i + 273.15 - (T_hot_out_C i + 273.15)))
               (T_cold_in_C i + 273.15) (T_cold_out_C i + 273.15) (P_cold_bar i * 100000) = Inr mc"
    and dT2: "T_hot_out_C i + 273.15 - (T_cold_in_C i + 273.15) \<noteq> 0"
  shows "\<exists>r u. sizing PropsSI i = Inr r \<and> U r = Flt u \<and> 0 < u"
proof -
  let ?m = "rho * (flow_hot_nm3_hr i / 3600)"
  let ?a = "single_tube_area (D_i i)"
  have m: "0 < ?m" using props geom by simp
  have a: "0 < ?a" using geom by (simp add: single_tube_area_def)
  obtain n where n: "tubes_per_pass ?m rho (velocity_target i) ?a = Inr n" and n1: "1 \<le> n"
    using tubes_positive [OF m props(1) geom(2) a] by blast
  obtain v where v: "tube_velocity ?m rho n ?a = Inr v" and v0: "0 < v"
    using velocity_positive [OF m props(1) n1 a] by blast
  have re0: "0 < rho * v * D_i i / mu" using props geom v0 by simp
  then have re: "py_fdiv (rho * v * D_i i) mu = Inr (rho * v * D_i i / mu)"
    using props by (simp add: py_fdiv_def)
  obtain nu where nu: "nusselt (rho * v * D_i i / mu) Pr = Flt nu" and nu0: "0 < nu"
    using nusselt_positive [OF re0 props(4)] by blast
  obtain h where h: "film_coefficient (Flt nu) k (D_i i) = Inr (Flt h)" and h0: "0 < h"
    using film_positive [OF nu0 props(3) geom(3)] by blast
  obtain u where u: "overall_U (Flt h) (t_wall i) = Inr (Flt u)" and u0: "0 < u"
    using overall_U_positive [OF h0 geom(4)] by blast
  have "\<exists>r. sizing PropsSI i = Inr r \<and> U r = Flt u"
    unfolding sizing_def Let_def
    apply (simp only: hp wf n v re nu h u lmtd_Inr [OF dT2] required_area_Flt shell_diameter_Inr
        bindE_def sum.case prod.case)
    apply (rule exI, rule conjI, rule refl)
    apply (simp only: locals.select_convs)
    done
  then show ?thesis using u0 by blast
qed

lemma sample_hydrogen:
  "hydrogen_properties sample_props T p = Inr (1.2, 14400, 0.00001, 0.2, 0.7)"
  by (simp add: hydrogen_properties_def sample_props_def bindE_def)

lemma sample_water:
  assumes "Tc_out - Tc_in \<noteq> 0"
  shows "water_flow sample_props a w q Tc_in Tc_out Pc
           = Inr (if a then q / (4180 * (Tc_out - Tc_in)) else w)"
  using assms by (simp add: water_flow_def sample_props_def bindE_def py_fdiv_def)

lemma sample_sizing:
  assumes "0 < flow_hot_nm3_hr i" "0 < velocity_target i" "0 < D_i i" "0 \<le> t_wall i"
    and "T_hot_out_C i \<noteq> T_cold_in_C i" "T_cold_out_C i \<noteq> T_cold_in_C i"
  shows "\<exists>r u. sizing sample_props i = Inr r \<and> U r = Flt u \<and> 0 < u"
proof -
  have c: "T_cold_out_C i + 273.15 - (T_cold_in_C i + 273.15) \<noteq> 0" using assms(6) by simp
  have h: "T_hot_out_C i + 273.15 - (T_cold_in_C i + 273.15) \<noteq> 0" using assms(5) by simp
  show ?thesis
    by (rule sizing_positive [OF sample_hydrogen _ _ _ _ assms(1-4) sample_water [OF c] h]) simp_all
qed

lemma default_sizing:
  "\<exists>r. sizing sample_props (default_inputs\<lparr>passes := p\<rparr>) = Inr r"
  using sample_sizing [of "default_inputs\<lparr>passes := p\<rparr>"]
  by (auto simp: default_inputs_def)

subsection \<open>Correction factor\<close>

text \<open>
  C5: on every successful run the correction factor \<open>F\<close> that enters the required area is
  exactly 1 for one pass and exactly 0.85 otherwise, so for 2 and for 4 passes.
\<close>

theorem correction_factor_fixed:
  assumes "sizing PropsSI i = Inr r"
  shows "F r = (if passes i = 1 then 1 else 0.85)
    \<and> required_area (Q r) (U r) (F r) (LMTD r) = Inr (A_required r)"
proof -
  from sizing_InrD [OF assms]
  have f: "F r = correction_factor (passes i)"
    and a: "required_area (Q r) (U r) (F r) (LMTD r) = Inr (A_required r)"
    by auto
  from f have "F r = (if passes i = 1 then 1 else 0.85)"
    by (simp add: correction_factor_def)
  with a show ?thesis by (rule conjI [rotated])
qed

text \<open>The default inputs with 1, 2 and 4 passes.\<close>

theorem correction_factor_fixed_witness:
  "(\<exists>r. sizing sample_props (default_inputs\<lparr>passes := 1\<rparr>) = Inr r \<and> F r = 1)
   \<and> (\<exists>r. sizing sample_props (default_inputs\<lparr>passes := 2\<rparr>) = Inr r \<and> F r = 0.85)
   \<and> (\<exists>r. sizing sample_props (default_inputs\<lparr>passes := 4\<rparr>) = Inr r \<and> F r = 0.85)"
proof -
  obtain r1 where r1: "sizing sample_props (default_inputs\<lparr>passes := 1\<rparr>) = Inr r1"
    using default_sizing by blast
  obtain r2 where r2: "sizing sample_props (default_inputs\<lparr>passes := 2\<rparr>) = Inr r2"
    using default_sizing by blast
  obtain r4 where r4: "sizing sample_props (default_inputs\<lparr>passes := 4\<rparr>) = Inr r4"
    using default_sizing by blast
  have "F r1 = 1" using correction_factor_fixed [OF r1] by simp
  moreover have "F r2 = 0.85" using correction_factor_fixed [OF r2] by simp
  moreover have "F r4 = 0.85" using correction_factor_fixed [OF r4] by simp
  ultimately show ?thesis using r1 r2 r4 by blast
qed

subsection \<open>The LMTD step\<close>

lemma run_design_Inl:
  "sizing PropsSI i = Inl e \<Longrightarrow> run_design PropsSI i = CalculationError e"
  by (simp add: run_design_def)

lemma sizing_needs_deltaT2:
  assumes "sizing PropsSI i = Inr r"
  shows "T_hot_out_C i \<noteq> T_cold_in_C i"
proof -
  from sizing_InrD [OF assms]
  have l: "lmtd (deltaT1 r) (deltaT2 r) = Inr (LMTD r)"
    and d: "deltaT2 r = T_hot_out r - T_cold_in r"
    and t: "T_hot_out r = T_hot_out_C i + 273.15" "T_cold_in r = T_cold_in_C i + 273.15"
    by auto
  from l have "deltaT2 r \<noteq> 0"
    by (auto simp: lmtd_def bindE_Inr_iff py_fdiv_Inr_iff)
  then show ?thesis unfolding d t by simp
qed

lemma lmtd_value:
  assumes "dT2 \<noteq> 0"
  shows "lmtd dT1 dT2 = Inr
     (if dT1 / dT2 < 0 \<or> dT1 = dT2 then NaN
      else if dT1 = 0 then Fin 0
      else Fin ((dT1 - dT2) / ln (dT1 / dT2)))"
proof -
  consider (neg) "dT1 / dT2 < 0" | (zero) "dT1 = 0" | (one) "dT1 = dT2"
    | (pos) "0 < dT1 / dT2" "dT1 \<noteq> dT2"
    using assms by (cases "dT1 / dT2" "0::real" rule: linorder_cases) auto
  then show ?thesis
  proof cases
    case neg
    then have "dT1 \<noteq> 0" by auto
    with neg assms show ?thesis by (simp add: lmtd_Inr [OF assms] np_log_def)
  next
    case zero
    then show ?thesis using assms by (simp add: lmtd_Inr [OF assms] np_log_def)
  next
    case one
    then show ?thesis using assms by (simp add: lmtd_Inr [OF assms] np_log_def)
  next
    case pos
    have "dT1 / dT2 \<noteq> 1" using pos(2) assms by simp
    then have "ln (dT1 / dT2) \<noteq> 0" using pos(1) by simp
    moreover have "dT1 \<noteq> 0" using pos(1) by auto
    ultimately show ?thesis using pos
      by (simp add: lmtd_Inr [OF assms] np_log_def)
  qed
qed

text \<open>
  C1, as the code has it: the LMTD step raises exactly when \<open>deltaT2\<close> is zero (the float
  division \<open>deltaT1/deltaT2\<close>), and a run with the hydrogen outlet at the water inlet
  temperature ends in the error branch. With \<open>deltaT2\<close> not zero the step raises nothing:
  it gives NaN when the ratio is negative or \<open>deltaT1 = deltaT2\<close>, zero when \<open>deltaT1\<close> is
  zero, and the finite value \<open>(deltaT1 - deltaT2) / ln (deltaT1/deltaT2)\<close> otherwise, also
  when both differences are negative.
\<close>

theorem lmtd_step_failure:
  "(lmtd dT1 dT2 = Inl ZeroDivisionError \<longleftrightarrow> dT2 = 0)
   \<and> (T_hot_out_C i = T_cold_in_C i \<longrightarrow> (\<exists>e. run_design PropsSI i = CalculationError e))
   \<and> (dT2 \<noteq> 0 \<longrightarrow> lmtd dT1 dT2 = Inr
        (if dT1 / dT2 < 0 \<or> dT1 = dT2 then NaN
         else if dT1 = 0 then Fin 0
         else Fin ((dT1 - dT2) / ln (dT1 / dT2))))"
proof (intro conjI impI)
  show "lmtd dT1 dT2 = Inl ZeroDivisionError \<longleftrightarrow> dT2 = 0"
    by (simp add: lmtd_def py_fdiv_def bindE_def)
next
  assume eq: "T_hot_out_C i = T_cold_in_C i"
  have "\<exists>e. sizing PropsSI i = Inl e"
  proof (cases "sizing PropsSI i")
    case (Inl e)
    then show ?thesis by blast
  next
    case (Inr r)
    with sizing_needs_deltaT2 eq show ?thesis by blast
  qed
  then show "\<exists>e. run_design PropsSI i = CalculationError e"
    using run_design_Inl by blast
next
  assume "dT2 \<noteq> 0"
  then show "lmtd dT1 dT2 = Inr
        (if dT1 / dT2 < 0 \<or> dT1 = dT2 then NaN
         else if dT1 = 0 then Fin 0
         else Fin ((dT1 - dT2) / ln (dT1 / dT2)))"
    by (rule lmtd_value)
qed

text \<open>The cases at concrete differences, and the run with the hydrogen outlet at 35 degrees.\<close>

theorem lmtd_step_failure_witness:
  "(lmtd 45 0 = Inl ZeroDivisionError)
   \<and> T_hot_out_C pinched_inputs = T_cold_in_C pinched_inputs
   \<and> (\<exists>e. run_design sample_props pinched_inputs = CalculationError e)
   \<and> (- 10 :: real) \<noteq> 0
   \<and> lmtd (- 20) (- 10) = Inr (Fin (- 10 / ln 2))
   \<and> lmtd (- 20) 10 = Inr NaN
   \<and> lmtd 10 10 = Inr NaN
   \<and> lmtd 0 10 = Inr (Fin 0)"
proof -
  have p: "T_hot_out_C pinched_inputs = T_cold_in_C pinched_inputs"
    by (simp add: pinched_inputs_def default_inputs_def)
  have a: "lmtd 45 0 = Inl ZeroDivisionError"
    using lmtd_step_failure [of 45 0] by simp
  have b: "\<exists>e. run_design sample_props pinched_inputs = CalculationError e"
    using lmtd_step_failure [of 1 1 pinched_inputs sample_props] p by blast
  have c: "lmtd (- 20) (- 10) = Inr (Fin (- 10 / ln 2))"
    using lmtd_step_failure [of "- 20" "- 10"] by simp
  have d: "lmtd (- 20) 10 = Inr NaN"
    using lmtd_step_failure [of "- 20" "10"] by simp
  have e: "lmtd 10 10 = Inr NaN"
    using lmtd_step_failure [of "10" "10"] by simp
  have f: "lmtd 0 10 = Inr (Fin 0)"
    using lmtd_step_failure [of "0" "10"] by simp
  show ?thesis using p a b c d e f by simp
qed

lemma crossed_sizing:
  "\<exists>r. sizing sample_props crossed_inputs = Inr r"
  using sample_sizing [of crossed_inputs]
  by (auto simp: crossed_inputs_def default_inputs_def)

text \<open>
  C1 as stated fails: with hydrogen from 20 to 25 degrees against water from 35 to 40
  degrees both differences are negative, yet the run succeeds with a finite LMTD and
  shows results.
\<close>

theorem lmtd_no_failure_counterexample:
  "T_hot_in_C crossed_inputs + 273.15 - (T_cold_out_C crossed_inputs + 273.15) \<le> 0
   \<and> T_hot_out_C crossed_inputs + 273.15 - (T_cold_in_C crossed_inputs + 273.15) \<le> 0
   \<and> \<not> isl (sizing sample_props crossed_inputs)
   \<and> LMTD (projr (sizing sample_props crossed_inputs)) = Fin (- 10 / ln 2)
   \<and> run_design sample_props crossed_inputs
       = Results (display (projr (sizing sample_props crossed_inputs)))
           (table_data crossed_inputs (projr (sizing sample_props crossed_inputs)))"
proof -
  obtain r where r: "sizing sample_props crossed_inputs = Inr r"
    using crossed_sizing by blast
  from sizing_InrD [OF r]
  have "lmtd (deltaT1 r) (deltaT2 r) = Inr (LMTD r)"
    and "deltaT1 r = - 20" and "deltaT2 r = - 10"
    by (auto simp: crossed_inputs_def default_inputs_def)
  then have "LMTD r = Fin (- 10 / ln 2)"
    by (simp add: lmtd_value)
  then show ?thesis using r
    by (simp add: run_design_def crossed_inputs_def default_inputs_def)
qed

subsection \<open>No hydrogen flow\<close>




subsection \<open>Hydrogen leaving hotter than it enters\<close>

lemma sizing_fields:
  assumes "sizing PropsSI i = Inr r"
  shows "hydrogen_properties PropsSI (T_hot_in_C i + 273.15) (P_hot_bar i * 100000)
           = Inr (rho_h r, Cp_h r, mu_h r, k_h r, Pr_h r)"
    and "Q r = rho_h r * (flow_hot_nm3_hr i / 3600) * Cp_h r * (T_hot_in_C i - T_hot_out_C i)"
    and "deltaT1 r = T_hot_in_C i - T_cold_out_C i"
    and "deltaT2 r = T_hot_out_C i - T_cold_in_C i"
    and "lmtd (deltaT1 r) (deltaT2 r) = Inr (LMTD r)"
    and "F r = correction_factor (passes i)"
    and "required_area (Q r) (U r) (F r) (LMTD r) = Inr (A_required r)"
  using assms
  unfolding sizing_def Let_def
  by (auto simp: bindE_Inr_iff)

lemma lmtd_positive:
  assumes "0 < dT1" "0 < dT2" "dT1 \<noteq> dT2"
  shows "\<exists>l. lmtd dT1 dT2 = Inr (Fin l) \<and> 0 < l"
proof -
  have r: "0 < dT1 / dT2" using assms by simp
  have nr: "\<not> dT1 / dT2 < 0" using r by simp
  have v: "lmtd dT1 dT2 = Inr (Fin ((dT1 - dT2) / ln (dT1 / dT2)))"
    using assms nr by (simp add: lmtd_value)
  have "0 < (dT1 - dT2) / ln (dT1 / dT2)"
  proof (cases "dT1 < dT2")
    case True
    then have "dT1 / dT2 < 1" using assms by simp
    then have "ln (dT1 / dT2) < 0" using r by simp
    then show ?thesis using True by (simp add: divide_neg_neg)
  next
    case False
    then have gt: "dT2 < dT1" using assms by simp
    then have "1 < dT1 / dT2" using assms by simp
    then have "0 < ln (dT1 / dT2)" by simp
    then show ?thesis using gt by simp
  qed
  with v show ?thesis by blast
qed

text \<open>
  C9: inputs with the hydrogen outlet hotter than the inlet are not rejected. With positive
  fluid properties, flow and geometry, a water-flow step that succeeds, and both
  terminal differences positive and different, the run completes and returns a strictly
  negative heat duty and a strictly negative required area.
\<close>

theorem reversed_duty_negative_area:
  assumes hp: "hydrogen_properties PropsSI (T_hot_in_C i + 273.15) (P_hot_bar i * 100000)
                 = Inr (rho, Cp, mu, k, Pr)"
    and props: "0 < rho" "0 < mu" "0 < k" "0 < Pr" and cp: "0 < Cp"
    and geom: "0 < flow_hot_nm3_hr i" "0 < velocity_target i" "0 < D_i i" "0 \<le> t_wall i"
    and wf: "water_flow PropsSI (auto_water i) (m_dot_cold_widget i)
               (rho * (flow_hot_nm3_hr i / 3600) * Cp * (T_hot_in_C i + 273.15 - (T_hot_out_C i + 273.15)))
               (T_cold_in_C i + 273.15) (T_cold_out_C i + 273.15) (P_cold_bar i * 100000) = Inr mc"
    and temps: "T_hot_in_C i < T_hot_out_C i" "T_cold_out_C i < T_hot_in_C i"
      "T_cold_in_C i < T_hot_out_C i"
      "T_hot_in_C i - T_cold_out_C i \<noteq> T_hot_out_C i - T_cold_in_C i"
  shows "\<exists>r a. sizing PropsSI i = Inr r \<and> Q r < 0 \<and> A_required r = F64 (Fin a) \<and> a < 0"
proof -
  have dT2: "T_hot_out_C i + 273.15 - (T_cold_in_C i + 273.15) \<noteq> 0" using temps(3) by simp
  obtain r u where r: "sizing PropsSI i = Inr r" and u: "U r = Flt u" and u0: "0 < u"
    using sizing_positive [OF hp props geom wf dT2] by blast
  note fs = sizing_fields [OF r]
  from fs(1) hp have same: "rho_h r = rho" "Cp_h r = Cp" by simp_all
  have q: "Q r = rho * (flow_hot_nm3_hr i / 3600) * Cp * (T_hot_in_C i - T_hot_out_C i)"
    using fs(2) unfolding same .
  note d1 = fs(3) and d2 = fs(4) and l = fs(5) and f = fs(6) and a = fs(7)
  have q0: "Q r < 0"
    unfolding q using props(1) cp geom(1) temps(1) by (simp add: mult_pos_neg)
  obtain lm where lm: "lmtd (deltaT1 r) (deltaT2 r) = Inr (Fin lm)" and lm0: "0 < lm"
    using lmtd_positive [of "deltaT1 r" "deltaT2 r"] temps(2-4) unfolding d1 d2 by auto
  from l lm have ll: "LMTD r = Fin lm" by simp
  have f0: "0 < F r" unfolding f by (simp add: correction_factor_def)
  have den: "0 < u * F r * lm" using u0 f0 lm0 by simp
  have nz: "u \<noteq> 0" "F r \<noteq> 0" "lm \<noteq> 0" using u0 f0 lm0 by simp_all
  from a have "A_required r = F64 (Fin (Q r / (u * F r * lm)))"
    unfolding u ll required_area_Flt using nz by simp
  moreover have "Q r / (u * F r * lm) < 0" using q0 den by (simp add: divide_neg_pos)
  ultimately show ?thesis using r q0 by blast
qed

text \<open>Hydrogen from 40 to 80 degrees against water from 20 to 30 degrees is such an input.\<close>

theorem reversed_duty_negative_area_witness:
  "T_hot_in_C reversed_inputs = 40 \<and> T_hot_out_C reversed_inputs = 80
   \<and> T_cold_in_C reversed_inputs = 20 \<and> T_cold_out_C reversed_inputs = 30
   \<and> (\<exists>r a. sizing sample_props reversed_inputs = Inr r \<and> Q r < 0
         \<and> A_required r = F64 (Fin a) \<and> a < 0)"
proof -
  have w: "T_cold_out_C reversed_inputs + 273.15 - (T_cold_in_C reversed_inputs + 273.15) \<noteq> 0"
    by (simp add: reversed_inputs_def default_inputs_def)
  have "\<exists>r a. sizing sample_props reversed_inputs = Inr r \<and> Q r < 0
         \<and> A_required r = F64 (Fin a) \<and> a < 0"
    by (rule reversed_duty_negative_area [OF sample_hydrogen _ _ _ _ _ _ _ _ _ sample_water [OF w]])
      (simp_all add: reversed_inputs_def default_inputs_def)
  then show ?thesis by (simp add: reversed_inputs_def default_inputs_def)
qed

subsection \<open>The table of the datasheet\<close>

lemma run_design_Inr:
  "sizing PropsSI i = Inr r \<Longrightarrow> run_design PropsSI i = Results (display r) (table_data i r)"
  by (simp add: run_design_def)

lemma screen_fields_display:
  "screen_fields (display r) =
     [''Heat Duty'', ''Cooling Water Flow'', ''Overall U'', ''Required Area'',
      ''Total Tubes'', ''Shell Diameter'', ''Tube Velocity'']"
  by (simp add: screen_fields_def display_def)

lemma table_no_velocity:
  "\<not> table_has_field (table_data i r) ''Tube Velocity''"
  by (simp add: table_has_field_def table_data_def)

text \<open>
  C7, as the code has it: after a successful run the table of the datasheet holds, below
  its header, the hydrogen flow as entered and then the first six displayed values (heat
  duty, cooling water flow, overall U, required area, total tubes, shell diameter), each
  formatted as on the screen and in the screen's order. The seventh displayed value, the
  tube velocity, is not in the table.
\<close>

theorem datasheet_table_fields:
  assumes "sizing PropsSI i = Inr r"
  shows "run_design PropsSI i = Results (display r) (table_data i r)
    \<and> table_data i r ! 1 = [Str ''Hydrogen Flow (Nm3/hr)'', RawFloat (flow_hot_nm3_hr i)]
    \<and> map (\<lambda>row. row ! 1) (drop 2 (table_data i r)) = map (\<lambda>l. l ! 1) (butlast (display r))
    \<and> list_all (table_has_field (table_data i r)) (butlast (screen_fields (display r)))
    \<and> last (screen_fields (display r)) = ''Tube Velocity''
    \<and> \<not> table_has_field (table_data i r) ''Tube Velocity''"
proof -
  have "table_data i r ! 1 = [Str ''Hydrogen Flow (Nm3/hr)'', RawFloat (flow_hot_nm3_hr i)]"
    by (simp add: table_data_def)
  moreover have "map (\<lambda>row. row ! 1) (drop 2 (table_data i r)) = map (\<lambda>l. l ! 1) (butlast (display r))"
    by (simp add: table_data_def display_def)
  moreover have "list_all (table_has_field (table_data i r)) (butlast (screen_fields (display r)))"
    unfolding screen_fields_display by (simp add: table_has_field_def table_data_def)
  moreover have "last (screen_fields (display r)) = ''Tube Velocity''"
    unfolding screen_fields_display by simp
  ultimately show ?thesis
    using run_design_Inr [OF assms] table_no_velocity by blast
qed

text \<open>The run with the default inputs.\<close>

theorem datasheet_table_fields_witness:
  "\<exists>r. sizing sample_props default_inputs = Inr r
    \<and> run_design sample_props default_inputs = Results (display r) (table_data default_inputs r)
    \<and> table_data default_inputs r ! 1
        = [Str ''Hydrogen Flow (Nm3/hr)'', RawFloat (flow_hot_nm3_hr default_inputs)]
    \<and> map (\<lambda>row. row ! 1) (drop 2 (table_data default_inputs r))
        = map (\<lambda>l. l ! 1) (butlast (display r))
    \<and> list_all (table_has_field (table_data default_inputs r)) (butlast (screen_fields (display r)))
    \<and> last (screen_fields (display r)) = ''Tube Velocity''
    \<and> \<not> table_has_field (table_data default_inputs r) ''Tube Velocity''"
proof -
  obtain r where r: "sizing sample_props default_inputs = Inr r"
    using default_sizing [of 1] by (auto simp: default_inputs_def)
  show ?thesis using r datasheet_table_fields [OF r] by blast
qed

text \<open>
  C7 as stated fails: the run with the default inputs displays a tube velocity, and none
  of the eight rows of its table has it.
\<close>

theorem datasheet_velocity_counterexample:
  "\<not> isl (sizing sample_props default_inputs)
   \<and> run_design sample_props default_inputs
       = Results (display (projr (sizing sample_props default_inputs)))
           (table_data default_inputs (projr (sizing sample_props default_inputs)))
   \<and> screen_fields (display (projr (sizing sample_props default_inputs))) ! 6 = ''Tube Velocity''
   \<and> \<not> table_has_field
         (table_data default_inputs (projr (sizing sample_props default_inputs))) ''Tube Velocity''
   \<and> length (table_data default_inputs (projr (sizing sample_props default_inputs))) = 8"
proof -
  obtain r where r: "sizing sample_props default_inputs = Inr r"
    using default_sizing [of 1] by (auto simp: default_inputs_def)
  have "length (table_data default_inputs r) = 8" by (simp add: table_data_def)
  then show ?thesis
    using r run_design_Inr [OF r] table_no_velocity [of default_inputs r]
    by (simp add: screen_fields_display)
qed

subsection \<open>Feedback\<close>

text \<open>
  C8, as the code has it: a press of "Submit Feedback" with a name and a feedback text that
  are both not empty appends one row of timestamp, name and feedback to the file, after
  creating it with the header Timestamp, Name, Feedback when it was absent. A press with
  an empty name or an empty feedback text writes nothing, and so does a run without a
  press. In every run the page then shows what \<open>read_csv\<close> makes of the whole file as it
  stands after the run, when the file is present, and no feedback table when it is absent.
\<close>

theorem feedback_appended_when_filled:
  "(submit_pressed u \<and> name_input u \<noteq> [] \<and> feedback_input u \<noteq> [] \<longrightarrow>
      feedback_csv (snd (script PropsSI read_csv w u)) =
        Some (case feedback_csv w of
                None \<Rightarrow> \<lparr>columns = [''Timestamp'', ''Name'', ''Feedback''],
                          data = [[Time (clock w), Text (name_input u), Text (feedback_input u)]]\<rparr>
              | Some f \<Rightarrow>
                  f\<lparr>data := data f @ [[Time (clock w), Text (name_input u), Text (feedback_input u)]]\<rparr>))
   \<and> (name_input u = [] \<or> feedback_input u = [] \<or> \<not> submit_pressed u \<longrightarrow>
      feedback_csv (snd (script PropsSI read_csv w u)) = feedback_csv w)
   \<and> visitor_feedback (fst (script PropsSI read_csv w u))
       = map_option read_csv (feedback_csv (snd (script PropsSI read_csv w u)))
   \<and> clock (snd (script PropsSI read_csv w u)) = clock w"
  by (cases "feedback_csv w") (auto simp: script_def submit_feedback_def Let_def)

text \<open>
  A filled-in submission on a file holding one row and on no file; a press with an empty
  name, a press with an empty text and a run without a press, which leave the file as it
  is; and what the page shows.
\<close>

theorem feedback_appended_when_filled_witness:
  "submit_pressed run_and_submit \<and> name_input run_and_submit \<noteq> []
   \<and> feedback_input run_and_submit \<noteq> []
   \<and> feedback_csv (snd (script sample_props sample_read_csv used_world run_and_submit)) =
      Some \<lparr>columns = [''Timestamp'', ''Name'', ''Feedback''],
            data = [[Time 5, Text ''Ada'', Text ''ok''], [Time 9, Text ''Bo'', Text ''fine'']]\<rparr>
   \<and> feedback_csv (snd (script sample_props sample_read_csv fresh_world run_and_submit)) =
      Some \<lparr>columns = [''Timestamp'', ''Name'', ''Feedback''],
            data = [[Time 0, Text ''Bo'', Text ''fine'']]\<rparr>
   \<and> name_input blank_submit = []
   \<and> feedback_csv (snd (script sample_props sample_read_csv used_world blank_submit))
       = feedback_csv used_world
   \<and> feedback_input blank_text_submit = []
   \<and> feedback_csv (snd (script sample_props sample_read_csv used_world blank_text_submit))
       = feedback_csv used_world
   \<and> \<not> submit_pressed run_only
   \<and> feedback_csv (snd (script sample_props sample_read_csv used_world run_only))
       = feedback_csv used_world
   \<and> visitor_feedback (fst (script sample_props sample_read_csv used_world run_and_submit)) =
      Some (Inr \<lparr>columns = [''Timestamp'', ''Name'', ''Feedback''],
            data = [[Time 5, Text ''Ada'', Text ''ok''], [Time 9, Text ''Bo'', Text ''fine'']]\<rparr>)
   \<and> visitor_feedback (fst (script sample_props sample_read_csv fresh_world run_only)) = None"
proof -
  have h: "submit_pressed run_and_submit \<and> name_input run_and_submit \<noteq> []
      \<and> feedback_input run_and_submit \<noteq> []"
    by (simp add: run_and_submit_def)
  have b: "name_input blank_submit = []" by (simp add: blank_submit_def)
  have t: "feedback_input blank_text_submit = []" by (simp add: blank_text_submit_def)
  have n: "\<not> submit_pressed run_only" by (simp add: run_only_def)
  show ?thesis
    using h b t n
      feedback_appended_when_filled [of run_and_submit sample_props sample_read_csv used_world]
      feedback_appended_when_filled [of run_and_submit sample_props sample_read_csv fresh_world]
      feedback_appended_when_filled [of blank_submit sample_props sample_read_csv used_world]
      feedback_appended_when_filled [of blank_text_submit sample_props sample_read_csv used_world]
      feedback_appended_when_filled [of run_only sample_props sample_read_csv used_world]
      feedback_appended_when_filled [of run_only sample_props sample_read_csv fresh_world]
    by (simp add: used_world_def fresh_world_def run_and_submit_def sample_read_csv_def)
qed

text \<open>
  C8 as stated fails: a press with an empty name appends nothing; an absent file stays
  absent and an existing file keeps its rows.
\<close>

theorem feedback_blank_name_counterexample:
  "submit_pressed blank_submit
   \<and> feedback_csv (snd (script sample_props sample_read_csv fresh_world blank_submit)) = None
   \<and> feedback_csv (snd (script sample_props sample_read_csv used_world blank_submit))
       = feedback_csv used_world"
  by (simp add: script_def submit_feedback_def Let_def blank_submit_def fresh_world_def used_world_def)

subsection \<open>Determinism\<close>

text \<open>
  C6: two runs of the page with the same inputs and the same property provider show the
  same design output and compute the same seven result values (or the same exception),
  whatever the feedback file holds, whatever the clock says and whatever the feedback
  widgets hold.
\<close>

theorem sizing_deterministic:
  assumes "inp u1 = inp u2" "run_pressed u1" "run_pressed u2"
  shows "design (fst (script PropsSI read_csv w1 u1)) = design (fst (script PropsSI read_csv w2 u2))
    \<and> map_sum id result_of (sizing PropsSI (inp u1)) = map_sum id result_of (sizing PropsSI (inp u2))"
  using assms by (simp add: script_def Let_def)

text \<open>A first run in a fresh world, a second with a feedback submission in a used one.\<close>

theorem sizing_deterministic_witness:
  "inp run_only = inp run_and_submit \<and> run_pressed run_only \<and> run_pressed run_and_submit
   \<and> design (fst (script sample_props sample_read_csv fresh_world run_only))
       = design (fst (script sample_props sample_read_csv used_world run_and_submit))
   \<and> map_sum id result_of (sizing sample_props (inp run_only))
       = map_sum id result_of (sizing sample_props (inp run_and_submit))"
proof -
  have h: "inp run_only = inp run_and_submit" "run_pressed run_only" "run_pressed run_and_submit"
    by (simp_all add: run_only_def run_and_submit_def)
  show ?thesis
    using h sizing_deterministic [OF h, of sample_props sample_read_csv fresh_world used_world]
    by blast
qed

section \<open>Properties of the float64 calculation\<close>

subsection \<open>Rounding\<close>

lemma rne_eq:
  assumes "\<bar>y - of_int n\<bar> < 1/2"
  shows "rne y = n"
proof (cases "of_int n \<le> y")
  case True
  then have "\<lfloor>y\<rfloor> = n" using assms by linarith
  then show ?thesis using assms True by (simp add: rne_def Let_def)
next
  case False
  then have f: "\<lfloor>y\<rfloor> = n - 1" using assms by linarith
  have "1/2 < y - of_int (n - 1)" using assms False by simp
  then show ?thesis using f by (simp add: rne_def Let_def)
qed

lemma rne_err: "\<bar>of_int (rne y) - y\<bar> \<le> 1/2"
proof -
  have "of_int \<lfloor>y\<rfloor> \<le> y" "y < of_int \<lfloor>y\<rfloor> + 1" by linarith+
  then show ?thesis by (auto simp: rne_def Let_def)
qed

lemma f64_exponent_eq:
  assumes "2 powi e \<le> \<bar>x\<bar>" "\<bar>x\<bar> < 2 powi (e + 1)" "- 1022 \<le> e"
  shows "f64_exponent x = e"
proof -
  have pos: "0 < \<bar>x\<bar>" using assms(1) by (smt (verit) zero_less_power_int)
  have p1: "2 powr (of_int e) = (2::real) powi e" by (simp add: powr_real_of_int')
  have "2 powr (of_int (e + 1)) = (2::real) powi (e + 1)" by (rule powr_real_of_int') simp_all
  then have p2: "2 powr (of_int e + 1) = (2::real) powi (e + 1)" by simp
  have "\<lfloor>log 2 \<bar>x\<bar>\<rfloor> = e"
    by (rule floor_log_eq_powr_iff [THEN iffD2, OF pos]) (use assms(1,2) p1 p2 in simp_all)
  then show ?thesis using assms(3) by (simp add: f64_exponent_def)
qed

lemma round_f64_eval:
  assumes e: "- 1022 \<le> e" "e \<le> 1022"
    and lo: "2 powi e \<le> \<bar>x\<bar>" and hi: "\<bar>x\<bar> < 2 powi (e + 1)"
    and r: "rne (x / 2 powi (e - 52)) = n"
  shows "round_f64 x = Num (of_int n * 2 powi (e - 52))"
proof -
  let ?u = "(2::real) powi (e - 52)"
  have u: "ulp x = ?u" by (simp add: ulp_def f64_exponent_eq [OF lo hi e(1)])
  have u0: "0 < ?u" by simp
  have x0: "x \<noteq> 0" using lo by (smt (verit) zero_less_power_int)
  have n: "\<bar>of_int n - x / ?u\<bar> \<le> 1/2" using rne_err [of "x / ?u"] r by simp
  have "\<bar>x / ?u\<bar> < 2 powi (e + 1) / ?u" using hi u0 by (simp add: divide_strict_right_mono)
  also have "2 powi (e + 1) / ?u = (2::real) powi 53"
    by (simp add: power_int_diff [symmetric])
  finally have "\<bar>x / ?u\<bar> < 2 ^ 53" by simp
  then have "\<bar>real_of_int n\<bar> < 2 ^ 53 + 1/2" using n by linarith
  then have "real_of_int \<bar>n\<bar> < real_of_int (2 ^ 53 + 1)" by simp
  then have "\<bar>n\<bar> < 2 ^ 53 + 1" by (simp only: of_int_less_iff)
  then have "\<bar>n\<bar> \<le> 2 ^ 53" by simp
  then have "real_of_int \<bar>n\<bar> \<le> real_of_int (2 ^ 53)" by (simp only: of_int_le_iff)
  then have "\<bar>real_of_int n\<bar> \<le> 2 ^ 53" by simp
  then have "\<bar>of_int n * ?u\<bar> \<le> 2 ^ 53 * ?u"
    using u0 by (simp add: abs_mult mult_right_mono)
  also have "2 ^ 53 * ?u = (2::real) powi (e + 1)"
    using power_int_add [of "2::real" 53 "e - 52"] by (simp add: add.commute)
  also have "\<dots> \<le> 2 powi 1023"
    by (rule power_int_increasing) (use e(2) in simp_all)
  also have "\<dots> < (2::real) ^ 1024" by simp
  finally have "\<not> 2 ^ 1024 \<le> \<bar>of_int n * ?u\<bar>" by simp
  then show ?thesis using x0 by (simp add: round_f64_def u r Let_def)
qed

lemma round_f64_rel:
  assumes "normal64 x"
  shows "\<exists>q. round_f64 x = Num q \<and> \<bar>q - x\<bar> \<le> \<bar>x\<bar> * 2 powi (- 53)"
proof -
  from assms have lo: "2 powi (- 1022) \<le> \<bar>x\<bar>" and hi: "\<bar>x\<bar> \<le> 2 powi 1023"
    by (simp_all add: normal64_def)
  have pos: "0 < \<bar>x\<bar>" using lo by (smt (verit) zero_less_power_int)
  then have x0: "x \<noteq> 0" by simp
  define e where "e = \<lfloor>log 2 \<bar>x\<bar>\<rfloor>"
  have p1: "2 powr (of_int e) = (2::real) powi e" by (simp add: powr_real_of_int')
  have "2 powr (of_int (e + 1)) = (2::real) powi (e + 1)" by (rule powr_real_of_int') simp_all
  then have p2: "2 powr (of_int e + 1) = (2::real) powi (e + 1)" by simp
  have "2 powr (of_int e) \<le> \<bar>x\<bar> \<and> \<bar>x\<bar> < 2 powr (of_int e + 1)"
    using floor_log_eq_powr_iff [OF pos, of 2 e] by (simp add: e_def)
  then have elo: "2 powi e \<le> \<bar>x\<bar>" and ehi: "\<bar>x\<bar> < 2 powi (e + 1)"
    using p1 p2 by simp_all
  have "(2::real) powi (- 1022) < 2 powi (e + 1)" using lo ehi by linarith
  then have e1: "- 1022 \<le> e"
    using power_int_increasing [of "e + 1" "- 1022" "2::real"] by (cases "- 1022 \<le> e") auto
  have "(2::real) powi e \<le> 2 powi 1023" using elo hi by linarith
  then have e2: "e \<le> 1023"
    using power_int_strict_increasing [of 1023 e "2::real"] by (cases "e \<le> 1023") auto
  let ?u = "(2::real) powi (e - 52)"
  have u: "ulp x = ?u" by (simp add: ulp_def f64_exponent_eq [OF elo ehi e1])
  have u0: "0 < ?u" by simp
  let ?q = "of_int (rne (x / ?u)) * ?u"
  have "(of_int (rne (x / ?u)) - x / ?u) * ?u = ?q - x"
    using u0 by (simp add: left_diff_distrib)
  then have "\<bar>?q - x\<bar> = \<bar>(of_int (rne (x / ?u)) - x / ?u) * ?u\<bar>" by simp
  also have "\<dots> = \<bar>of_int (rne (x / ?u)) - x / ?u\<bar> * ?u"
    using u0 by (simp only: abs_mult abs_of_pos)
  also have "\<dots> \<le> 1/2 * ?u" using rne_err [of "x / ?u"] u0 by (simp add: mult_right_mono)
  also have "1/2 * ?u = 2 powi e * 2 powi (- 53)"
    using power_int_add [of "2::real" e "- 53"] power_int_add [of "2::real" "e - 52" "- 1"]
    by simp
  finally have err: "\<bar>?q - x\<bar> \<le> 2 powi e * 2 powi (- 53)" .
  also have "\<dots> \<le> \<bar>x\<bar> * 2 powi (- 53)" using elo by (simp add: mult_right_mono)
  finally have rel: "\<bar>?q - x\<bar> \<le> \<bar>x\<bar> * 2 powi (- 53)" .
  have "(2::real) powi e * 2 powi (- 53) \<le> 2 powi 1023 * 2 powi (- 53)"
    using e2 by (intro mult_right_mono power_int_increasing) simp_all
  then have "\<bar>?q - x\<bar> \<le> 2 powi 1023 * 2 powi (- 53)" using err by linarith
  then have "\<bar>?q\<bar> \<le> 2 powi 1023 + 2 powi 1023 * 2 powi (- 53)" using hi by linarith
  also have "\<dots> < (2::real) ^ 1024" by simp
  finally have "\<not> 2 ^ 1024 \<le> \<bar>?q\<bar>" by simp
  then have "round_f64 x = Num ?q" using x0 by (simp add: round_f64_def u Let_def)
  with rel show ?thesis by blast
qed

lemma round_f64_delta:
  assumes "normal64 x"
  shows "\<exists>d. round_f64 x = Num (x * (1 + d)) \<and> \<bar>d\<bar> \<le> unit_roundoff"
proof -
  obtain q where q: "round_f64 x = Num q" and e: "\<bar>q - x\<bar> \<le> \<bar>x\<bar> * 2 powi (- 53)"
    using round_f64_rel [OF assms] by blast
  have x0: "x \<noteq> 0" using assms by (auto simp: normal64_def)
  have "\<bar>(q - x) / x\<bar> \<le> 2 powi (- 53)"
    using e x0 by (simp add: abs_divide pos_divide_le_eq mult.commute)
  moreover have "x * (1 + (q - x) / x) = q" using x0 by (simp add: field_simps)
  ultimately show ?thesis using q unfolding unit_roundoff_def by metis
qed

lemma band_mult:
  fixes x y :: real
  assumes "2 powi a \<le> \<bar>x\<bar>" "\<bar>x\<bar> \<le> 2 powi b" "2 powi c \<le> \<bar>y\<bar>" "\<bar>y\<bar> \<le> 2 powi d"
  shows "2 powi (a + c) \<le> \<bar>x * y\<bar>" and "\<bar>x * y\<bar> \<le> 2 powi (b + d)"
proof -
  have "(2::real) powi a * 2 powi c \<le> \<bar>x\<bar> * \<bar>y\<bar>"
    using assms(1,3) by (intro mult_mono) simp_all
  then show "2 powi (a + c) \<le> \<bar>x * y\<bar>" by (simp add: power_int_add abs_mult)
  have "\<bar>x\<bar> * \<bar>y\<bar> \<le> (2::real) powi b * 2 powi d"
    using assms(2,4) by (intro mult_mono) simp_all
  then show "\<bar>x * y\<bar> \<le> 2 powi (b + d)" by (simp add: power_int_add abs_mult)
qed

lemma band_inverse:
  fixes y :: real
  assumes "2 powi c \<le> \<bar>y\<bar>" "\<bar>y\<bar> \<le> 2 powi d"
  shows "2 powi (- d) \<le> \<bar>inverse y\<bar>" and "\<bar>inverse y\<bar> \<le> 2 powi (- c)"
proof -
  have y0: "0 < \<bar>y\<bar>" using assms(1) by (smt (verit) zero_less_power_int)
  have "inverse ((2::real) powi d) \<le> inverse \<bar>y\<bar>"
    using assms(2) y0 by (intro le_imp_inverse_le) simp_all
  then show "2 powi (- d) \<le> \<bar>inverse y\<bar>" by (simp add: power_int_minus)
  have "inverse \<bar>y\<bar> \<le> inverse ((2::real) powi c)"
    using assms(1) by (intro le_imp_inverse_le) simp_all
  then show "\<bar>inverse y\<bar> \<le> 2 powi (- c)" by (simp add: power_int_minus)
qed

lemma band_divide:
  fixes x y :: real
  assumes "2 powi a \<le> \<bar>x\<bar>" "\<bar>x\<bar> \<le> 2 powi b" "2 powi c \<le> \<bar>y\<bar>" "\<bar>y\<bar> \<le> 2 powi d"
  shows "2 powi (a - d) \<le> \<bar>x / y\<bar>" and "\<bar>x / y\<bar> \<le> 2 powi (b - c)"
  using band_mult [OF assms(1,2) band_inverse [OF assms(3,4)]]
  by (simp_all add: divide_inverse)

lemma band_normal:
  fixes x :: real
  assumes "2 powi a \<le> \<bar>x\<bar>" "\<bar>x\<bar> \<le> 2 powi b" "- 1022 \<le> a" "b \<le> 1023"
  shows "normal64 x"
proof -
  have "(2::real) powi (- 1022) \<le> 2 powi a"
    by (rule power_int_increasing) (use assms(3) in simp_all)
  moreover have "(2::real) powi b \<le> 2 powi 1023"
    by (rule power_int_increasing) (use assms(4) in simp_all)
  ultimately show ?thesis using assms(1,2) unfolding normal64_def by linarith
qed

lemma unit_roundoff_bounds: "0 < unit_roundoff" "unit_roundoff \<le> 1/2"
  by (simp_all add: unit_roundoff_def)

lemma round_band:
  assumes "2 powi a \<le> \<bar>x\<bar>" "\<bar>x\<bar> \<le> 2 powi b" "- 1022 \<le> a" "b \<le> 1023"
  shows "\<exists>d. round_f64 x = Num (x * (1 + d)) \<and> \<bar>d\<bar> \<le> unit_roundoff
           \<and> 2 powi (a - 1) \<le> \<bar>x * (1 + d)\<bar> \<and> \<bar>x * (1 + d)\<bar> \<le> 2 powi (b + 1)"
proof -
  obtain d where r: "round_f64 x = Num (x * (1 + d))" and d: "\<bar>d\<bar> \<le> unit_roundoff"
    using round_f64_delta [OF band_normal [OF assms]] by blast
  have d2: "\<bar>d\<bar> \<le> 1/2" using d unit_roundoff_bounds(2) by linarith
  then have "1/2 \<le> 1 + d" "1 + d \<le> 2" by linarith+
  then have lo: "2 powi (- 1) \<le> \<bar>1 + d\<bar>" and hi: "\<bar>1 + d\<bar> \<le> 2 powi 1"
    by simp_all
  have "2 powi (a + (- 1)) \<le> \<bar>x * (1 + d)\<bar>" "\<bar>x * (1 + d)\<bar> \<le> 2 powi (b + 1)"
    using band_mult [OF assms(1,2) lo hi] by simp_all
  then show ?thesis using r d by auto
qed

lemma delta_quotient:
  assumes "\<bar>d1\<bar> \<le> unit_roundoff" "\<bar>d2\<bar> \<le> unit_roundoff"
  shows "\<bar>(1 + d2) / (1 + d1) - 1\<bar> \<le> 2 powi (- 51)"
proof -
  have u: "unit_roundoff = 1 / 2 ^ 53" by (simp add: unit_roundoff_def)
  have p: "0 < 1 + d1" using assms(1) u by (simp add: abs_if split: if_splits)
  have "(1 + d2) / (1 + d1) - 1 = (d2 - d1) / (1 + d1)" using p by (simp add: field_simps)
  moreover have "\<bar>d2 - d1\<bar> \<le> 2 * unit_roundoff" using assms by linarith
  moreover have "1 - unit_roundoff \<le> 1 + d1" using assms(1) by linarith
  ultimately have "\<bar>(1 + d2) / (1 + d1) - 1\<bar> \<le> 2 * unit_roundoff / (1 - unit_roundoff)"
    using p u by (simp add: abs_divide frac_le)
  also have "\<dots> \<le> 2 powi (- 51)" by (simp add: u)
  finally show ?thesis .
qed

lemma py_div64_Num:
  "y \<noteq> 0 \<Longrightarrow> py_div64 (Num x) (Num y) = Inr (round_f64 (x / y))"
  by (simp add: py_div64_def)

lemma band_pos:
  fixes x :: real
  assumes "2 powi a \<le> \<bar>x\<bar>"
  shows "x \<noteq> 0"
  using assms by (smt (verit) zero_less_power_int)

lemma three_up:
  fixes x y z b :: real
  assumes "0 \<le> x" "x \<le> b" "0 \<le> y" "y \<le> b" "0 \<le> z" "z \<le> b"
  shows "x * y * z \<le> b * b * b"
  using assms by (intro mult_mono) (auto intro: order_trans mult_nonneg_nonneg)

lemma four_down:
  fixes w x y z c :: real
  assumes "0 \<le> c" "c \<le> w" "c \<le> x" "c \<le> y" "c \<le> z"
  shows "c * c * c * c \<le> w * x * y * z"
  using assms by (intro mult_mono) (auto intro: order_trans mult_nonneg_nonneg)

lemma roundoff_budget:
  "(1 + unit_roundoff) * (1 + unit_roundoff) * (1 + unit_roundoff)
     \<le> (1 + 2 powi (- 50)) * ((1 - unit_roundoff) * (1 - unit_roundoff) * (1 - unit_roundoff) * (1 - unit_roundoff))"
  by (simp add: unit_roundoff_def)

lemma delta_factor:
  assumes "\<bar>d\<bar> \<le> unit_roundoff"
  shows "1 - unit_roundoff \<le> 1 + d" "1 + d \<le> 1 + unit_roundoff" "0 < 1 + d"
  using assms unit_roundoff_bounds by (simp_all add: abs_le_iff)

subsection \<open>Two runs, rounding by rounding\<close>

text \<open>Every rounding that occurs in the two runs below, each checked against its exponent.\<close>

lemma round_at_0: "round_f64 (1 / 100000) = Num (5902958103587057 / 590295810358705651712)"
  using round_f64_eval [of "-17" "1 / 100000" "5902958103587057"] by (simp add: rne_def Let_def)

lemma round_at_1: "round_f64 (2263756080649101 / 4611686018427387904) = Num (2263756080649101 / 4611686018427387904)"
  using round_f64_eval [of "-11" "2263756080649101 / 4611686018427387904" "4527512161298202"] by (simp add: rne_def Let_def)

lemma round_at_2: "round_f64 (12980742146337070512478121581609 / 20769187434139310514121985316880384) = Num (1441151880758559 / 2305843009213693952)"
  using round_f64_eval [of "-11" "12980742146337070512478121581609 / 20769187434139310514121985316880384" "5764607523034236"] by (simp add: rne_def Let_def)

lemma round_at_3: "round_f64 (1274381380158623354301017677245 / 649037107316853453566312041152512) = Num (2263756080649101 / 1152921504606846976)"
  using round_f64_eval [of "-9" "1274381380158623354301017677245 / 649037107316853453566312041152512" "4527512161298202"] by (simp add: rne_def Let_def)

lemma round_at_4: "round_f64 (10704803593332435494809787270121 / 2596148429267413814265248164610048) = Num (594235971170389 / 144115188075855872)"
  using round_f64_eval [of "-8" "10704803593332435494809787270121 / 2596148429267413814265248164610048" "4753887769363112"] by (simp add: rne_def Let_def)

lemma round_at_5: "round_f64 (13763318905713129410107371648069 / 2596148429267413814265248164610048) = Num (1528035354438143 / 288230376151711744)"
  using round_f64_eval [of "-8" "13763318905713129410107371648069 / 2596148429267413814265248164610048" "6112141417752572"] by (simp add: rne_def Let_def)

lemma round_at_6: "round_f64 (1 / 40) = Num (3602879701896397 / 144115188075855872)"
  using round_f64_eval [of "-6" "1 / 40" "7205759403792794"] by (simp add: rne_def Let_def)

lemma round_at_7: "round_f64 (4587772968571043136702457216023 / 162259276829213363391578010288128) = Num (8149521890336763 / 288230376151711744)"
  using round_f64_eval [of "-6" "4587772968571043136702457216023 / 162259276829213363391578010288128" "8149521890336763"] by (simp add: rne_def Let_def)

lemma round_at_8: "round_f64 (5794974172471905711693154413501 / 162259276829213363391578010288128) = Num (2573485501354569 / 72057594037927936)"
  using round_f64_eval [of "-5" "5794974172471905711693154413501 / 162259276829213363391578010288128" "5146971002709138"] by (simp add: rne_def Let_def)

lemma round_at_9: "round_f64 (1 / 5) = Num (3602879701896397 / 18014398509481984)"
  using round_f64_eval [of "-3" "1 / 5" "7205759403792794"] by (simp add: rne_def Let_def)

lemma round_at_10: "round_f64 (5 / 24) = Num (7505999378950827 / 36028797018963968)"
  using round_f64_eval [of "-3" "5 / 24" "7505999378950827"] by (simp add: rne_def Let_def)

lemma round_at_11: "round_f64 (40564819207303341148134477730065 / 162259276829213363391578010288128) = Num (1 / 4)"
  using round_f64_eval [of "-2" "40564819207303341148134477730065 / 162259276829213363391578010288128" "4503599627370496"] by (simp add: rne_def Let_def)

lemma round_at_12: "round_f64 (7 / 10) = Num (3152519739159347 / 4503599627370496)"
  using round_f64_eval [of "-1" "7 / 10" "6305039478318694"] by (simp add: rne_def Let_def)

lemma round_at_13: "round_f64 (6 / 5) = Num (5404319552844595 / 4503599627370496)"
  using round_f64_eval [of "0" "6 / 5" "5404319552844595"] by (simp add: rne_def Let_def)

lemma round_at_14: "round_f64 (3) = Num (3)"
  using round_f64_eval [of "1" "3" "6755399441055744"] by (simp add: rne_def Let_def)

lemma round_at_15: "round_f64 (4) = Num (4)"
  using round_f64_eval [of "2" "4" "4503599627370496"] by (simp add: rne_def Let_def)

lemma round_at_16: "round_f64 (5) = Num (5)"
  using round_f64_eval [of "2" "5" "5629499534213120"] by (simp add: rne_def Let_def)

lemma round_at_17: "round_f64 (1440 / 209) = Num (1939349121834185 / 281474976710656)"
  using round_f64_eval [of "2" "1440 / 209" "7757396487336740"] by (simp add: rne_def Let_def)

lemma round_at_18: "round_f64 (7) = Num (7)"
  using round_f64_eval [of "2" "7" "7881299347898368"] by (simp add: rne_def Let_def)

lemma round_at_19: "round_f64 (18014398509481984 / 2573485501354569) = Num (7)"
  using round_f64_eval [of "2" "18014398509481984 / 2573485501354569" "7881299347898368"] by (simp add: rne_def Let_def)

lemma round_at_20: "round_f64 (1512 / 209) = Num (1018158288962947 / 140737488355328)"
  using round_f64_eval [of "2" "1512 / 209" "8145266311703576"] by (simp add: rne_def Let_def)

lemma round_at_21: "round_f64 (37830236869912165 / 4503599627370496) = Num (4728779608739021 / 562949953421312)"
  using round_f64_eval [of "3" "37830236869912165 / 4503599627370496" "4728779608739021"] by (simp add: rne_def Let_def)

lemma round_at_22: "round_f64 (72057594037927936 / 8149521890336763) = Num (2488785216676501 / 281474976710656)"
  using round_f64_eval [of "3" "72057594037927936 / 8149521890336763" "4977570433353002"] by (simp add: rne_def Let_def)

lemma round_at_23: "round_f64 (9) = Num (9)"
  using round_f64_eval [of "3" "9" "5066549580791808"] by (simp add: rne_def Let_def)

lemma round_at_24: "round_f64 (48638875975601355 / 4503599627370496) = Num (6079859496950169 / 562949953421312)"
  using round_f64_eval [of "3" "48638875975601355 / 4503599627370496" "6079859496950169"] by (simp add: rne_def Let_def)

lemma round_at_25: "round_f64 (16) = Num (16)"
  using round_f64_eval [of "4" "16" "4503599627370496"] by (simp add: rne_def Let_def)

lemma round_at_26: "round_f64 (35) = Num (35)"
  using round_f64_eval [of "5" "35" "4925812092436480"] by (simp add: rne_def Let_def)

lemma round_at_27: "round_f64 (40) = Num (40)"
  using round_f64_eval [of "5" "40" "5629499534213120"] by (simp add: rne_def Let_def)

lemma round_at_28: "round_f64 (42) = Num (42)"
  using round_f64_eval [of "5" "42" "5910974510923776"] by (simp add: rne_def Let_def)

lemma round_at_29: "round_f64 (72057594037927936 / 1528035354438143) = Num (6636760577804003 / 140737488355328)"
  using round_f64_eval [of "5" "72057594037927936 / 1528035354438143" "6636760577804003"] by (simp add: rne_def Let_def)

lemma round_at_30: "round_f64 (48) = Num (48)"
  using round_f64_eval [of "5" "48" "6755399441055744"] by (simp add: rne_def Let_def)

lemma round_at_31: "round_f64 (16212958658533785 / 281474976710656) = Num (2026619832316723 / 35184372088832)"
  using round_f64_eval [of "5" "16212958658533785 / 281474976710656" "8106479329266892"] by (simp add: rne_def Let_def)

lemma round_at_32: "round_f64 (3031522725559911 / 50000000000000) = Num (8532977885748003 / 140737488355328)"
  using round_f64_eval [of "5" "3031522725559911 / 50000000000000" "8532977885748003"] by (simp add: rne_def Let_def)

lemma round_at_33: "round_f64 (36028797018963968 / 594235971170389) = Num (2133244471437001 / 35184372088832)"
  using round_f64_eval [of "5" "36028797018963968 / 594235971170389" "8532977885748004"] by (simp add: rne_def Let_def)

lemma round_at_34: "round_f64 (46114939231938465215267990593785 / 633825300114114700748351602688) = Num (2559893365724401 / 35184372088832)"
  using round_f64_eval [of "6" "46114939231938465215267990593785 / 633825300114114700748351602688" "5119786731448802"] by (simp add: rne_def Let_def)

lemma round_at_35: "round_f64 (80) = Num (80)"
  using round_f64_eval [of "6" "80" "5629499534213120"] by (simp add: rne_def Let_def)

lemma round_at_36: "round_f64 (82) = Num (82)"
  using round_f64_eval [of "6" "82" "5770237022568448"] by (simp add: rne_def Let_def)

lemma round_at_37: "round_f64 (5463 / 20) = Num (2402652809016115 / 8796093022208)"
  using round_f64_eval [of "8" "5463 / 20" "4805305618032230"] by (simp add: rne_def Let_def)

lemma round_at_38: "round_f64 (2710516064793395 / 8796093022208) = Num (2710516064793395 / 8796093022208)"
  using round_f64_eval [of "8" "2710516064793395 / 8796093022208" "5421032129586790"] by (simp add: rne_def Let_def)

lemma round_at_39: "round_f64 (2754496529904435 / 8796093022208) = Num (2754496529904435 / 8796093022208)"
  using round_f64_eval [of "8" "2754496529904435 / 8796093022208" "5508993059808870"] by (simp add: rne_def Let_def)

lemma round_at_40: "round_f64 (3106340250792755 / 8796093022208) = Num (3106340250792755 / 8796093022208)"
  using round_f64_eval [of "8" "3106340250792755 / 8796093022208" "6212680501585510"] by (simp add: rne_def Let_def)

lemma round_at_41: "round_f64 (3123932436837171 / 8796093022208) = Num (3123932436837171 / 8796093022208)"
  using round_f64_eval [of "8" "3123932436837171 / 8796093022208" "6247864873674342"] by (simp add: rne_def Let_def)

lemma round_at_42: "round_f64 (750) = Num (750)"
  using round_f64_eval [of "9" "750" "6597069766656000"] by (simp add: rne_def Let_def)

lemma round_at_43: "round_f64 (3600) = Num (3600)"
  using round_f64_eval [of "11" "3600" "7916483719987200"] by (simp add: rne_def Let_def)

lemma round_at_44: "round_f64 (4180) = Num (4180)"
  using round_f64_eval [of "12" "4180" "4595958604103680"] by (simp add: rne_def Let_def)

lemma round_at_45: "round_f64 (14400) = Num (14400)"
  using round_f64_eval [of "13" "14400" "7916483719987200"] by (simp add: rne_def Let_def)

lemma round_at_46: "round_f64 (20900) = Num (20900)"
  using round_f64_eval [of "14" "20900" "5744948255129600"] by (simp add: rne_def Let_def)

lemma round_at_47: "round_f64 (1063975411966279615 / 35184372088832) = Num (8312307905986559 / 274877906944)"
  using round_f64_eval [of "14" "1063975411966279615 / 35184372088832" "8312307905986559"] by (simp add: rne_def Let_def)

lemma round_at_48: "round_f64 (100000) = Num (100000)"
  using round_f64_eval [of "16" "100000" "6871947673600000"] by (simp add: rne_def Let_def)

lemma round_at_49: "round_f64 (144000) = Num (144000)"
  using round_f64_eval [of "17" "144000" "4947802324992000"] by (simp add: rne_def Let_def)

lemma round_at_50: "round_f64 (41561539529932795 / 274877906944) = Num (5195192441241599 / 34359738368)"
  using round_f64_eval [of "17" "41561539529932795 / 274877906944" "5195192441241599"] by (simp add: rne_def Let_def)

lemma round_at_51: "round_f64 (151200) = Num (151200)"
  using round_f64_eval [of "17" "151200" "5195192441241600"] by (simp add: rne_def Let_def)

lemma round_at_52: "round_f64 (300000) = Num (300000)"
  using round_f64_eval [of "18" "300000" "5153960755200000"] by (simp add: rne_def Let_def)

lemma round_at_53: "round_f64 (1600000) = Num (1600000)"
  using round_f64_eval [of "20" "1600000" "6871947673600000"] by (simp add: rne_def Let_def)

lemmas round_at_rules = round_at_0 round_at_1 round_at_2 round_at_3 round_at_4 round_at_5
  round_at_6 round_at_7 round_at_8 round_at_9 round_at_10 round_at_11 round_at_12
  round_at_13 round_at_14 round_at_15 round_at_16 round_at_17 round_at_18 round_at_19
  round_at_20 round_at_21 round_at_22 round_at_23 round_at_24 round_at_25 round_at_26
  round_at_27 round_at_28 round_at_29 round_at_30 round_at_31 round_at_32 round_at_33
  round_at_34 round_at_35 round_at_36 round_at_37 round_at_38 round_at_39 round_at_40
  round_at_41 round_at_42 round_at_43 round_at_44 round_at_45 round_at_46 round_at_47
  round_at_48 round_at_49 round_at_50 round_at_51 round_at_52 round_at_53

lemma fast_run:
  "sizing64 sample_props64 fast_inputs = Inr
     \<lparr>T_hot_in64 = Num (3106340250792755 / 8796093022208),
       T_hot_out64 = Num (2754496529904435 / 8796093022208),
       T_cold_in64 = Num (2710516064793395 / 8796093022208),
       T_cold_out64 = Num (2754496529904435 / 8796093022208),
       P_hot64 = Num (1600000),
       P_cold64 = Num (300000),
       flow_hot_m3_s64 = Num (7505999378950827 / 36028797018963968),
       rho_h64 = Num (5404319552844595 / 4503599627370496),
       Cp_h64 = Num (14400),
       mu_h64 = Num (5902958103587057 / 590295810358705651712),
       k_h64 = Num (3602879701896397 / 18014398509481984),
       Pr_h64 = Num (3152519739159347 / 4503599627370496),
       m_dot_h64 = Num (1 / 4),
       Q64 = Num (144000),
       m_dot_cold64 = Num (1939349121834185 / 281474976710656),
       A_single64 = Num (2263756080649101 / 4611686018427387904),
       raw64 = Num (7),
       N_per_pass64 = 7,
       N_total64 = 7,
       velocity64 = Num (2133244471437001 / 35184372088832)\<rparr>"
  by (simp add: fast_inputs_def sizing64_def Let_def bindE_def
      hydrogen_properties64_def water_flow64_def single_tube_area64_def raw_tubes64_def
      tube_velocity64_def py_div64_def f_sub_def lit_def float_of_int_def np_pi_def
      sample_props64_def default_inputs_def round_at_rules)

lemma hotter_run:
  "sizing64 sample_props64 hotter_inputs = Inr
     \<lparr>T_hot_in64 = Num (3123932436837171 / 8796093022208),
       T_hot_out64 = Num (2754496529904435 / 8796093022208),
       T_cold_in64 = Num (2710516064793395 / 8796093022208),
       T_cold_out64 = Num (2754496529904435 / 8796093022208),
       P_hot64 = Num (1600000),
       P_cold64 = Num (300000),
       flow_hot_m3_s64 = Num (7505999378950827 / 36028797018963968),
       rho_h64 = Num (5404319552844595 / 4503599627370496),
       Cp_h64 = Num (14400),
       mu_h64 = Num (5902958103587057 / 590295810358705651712),
       k_h64 = Num (3602879701896397 / 18014398509481984),
       Pr_h64 = Num (3152519739159347 / 4503599627370496),
       m_dot_h64 = Num (1 / 4),
       Q64 = Num (151200),
       m_dot_cold64 = Num (1018158288962947 / 140737488355328),
       A_single64 = Num (2263756080649101 / 4611686018427387904),
       raw64 = Num (6636760577804003 / 140737488355328),
       N_per_pass64 = 48,
       N_total64 = 48,
       velocity64 = Num (2488785216676501 / 281474976710656)\<rparr>"
  by (simp add: hotter_inputs_def sizing64_def Let_def bindE_def
      hydrogen_properties64_def water_flow64_def single_tube_area64_def raw_tubes64_def
      tube_velocity64_def py_div64_def f_sub_def lit_def float_of_int_def np_pi_def
      sample_props64_def default_inputs_def round_at_rules)

subsection \<open>Tube count\<close>

lemma sizing64_InrD:
  assumes "sizing64 PropsSI i = Inr r"
  shows "T_cold_in64 r = f_add (lit (T_cold_in_C i)) (lit 273.15)"
    and "T_cold_out64 r = f_add (lit (T_cold_out_C i)) (lit 273.15)"
    and "P_cold64 r = f_mul (lit (P_cold_bar i)) (lit 100000)"
    and "m_dot_h64 r = f_mul (rho_h64 r) (flow_hot_m3_s64 r)"
    and "Q64 r = f_mul (f_mul (m_dot_h64 r) (Cp_h64 r)) (f_sub (T_hot_in64 r) (T_hot_out64 r))"
    and "water_flow64 PropsSI (auto_water i) (lit (m_dot_cold_widget i)) (Q64 r)
           (T_cold_in64 r) (T_cold_out64 r) (P_cold64 r) = Inr (m_dot_cold64 r)"
    and "single_tube_area64 (lit (D_i i)) = Inr (A_single64 r)"
    and "raw_tubes64 (m_dot_h64 r) (rho_h64 r) (lit (velocity_target i)) (A_single64 r) = Inr (raw64 r)"
    and "py_int_ceil (raw64 r) = Inr (N_per_pass64 r)"
    and "N_total64 r = N_per_pass64 r * passes i"
    and "tube_velocity64 (m_dot_h64 r) (rho_h64 r) (N_per_pass64 r) (A_single64 r) = Inr (velocity64 r)"
  using assms
  unfolding sizing64_def Let_def
  by (auto simp: bindE_Inr_iff)




subsection \<open>Achieved velocity\<close>

text \<open>
  C3, as the code has it: when the mass flow, the density, the target velocity and the
  single-tube area are positive floats between \<open>2^-100\<close> and \<open>2^100\<close>, so that nothing
  underflows or overflows, a run that gets through the tube design has an achieved
  velocity of at most the target velocity times \<open>1 + 2^-50\<close>. Rounding can lift it above
  the target itself.
\<close>

theorem velocity_le_target:
  assumes run: "sizing64 PropsSI i = Inr r"
    and m: "m_dot_h64 r = Num m" and rho: "rho_h64 r = Num rho"
    and v: "lit (velocity_target i) = Num v" and a: "A_single64 r = Num a"
    and pos: "0 < m" "0 < rho" "0 < v" "0 < a"
    and band: "moderate m" "moderate rho" "moderate v" "moderate a"
  shows "\<exists>vel. velocity64 r = Num vel \<and> vel \<le> v * (1 + 2 powi (- 50))"
proof -
  note fs = sizing64_InrD [OF run]
  from band have bm: "2 powi (- 100) \<le> \<bar>m\<bar>" "\<bar>m\<bar> \<le> 2 powi 100"
    and br: "2 powi (- 100) \<le> \<bar>rho\<bar>" "\<bar>rho\<bar> \<le> 2 powi 100"
    and bv: "2 powi (- 100) \<le> \<bar>v\<bar>" "\<bar>v\<bar> \<le> 2 powi 100"
    and ba: "2 powi (- 100) \<le> \<bar>a\<bar>" "\<bar>a\<bar> \<le> 2 powi 100"
    by (simp_all add: moderate_def)
  obtain e1 where p1: "round_f64 (rho * v) = Num (rho * v * (1 + e1))"
    and e1: "\<bar>e1\<bar> \<le> unit_roundoff"
    and bp1: "2 powi (- 201) \<le> \<bar>rho * v * (1 + e1)\<bar>" "\<bar>rho * v * (1 + e1)\<bar> \<le> 2 powi 201"
    using round_band [OF band_mult [OF br bv]] by auto
  let ?P1 = "rho * v * (1 + e1)"
  obtain e2 where d1: "round_f64 (?P1 * a) = Num (?P1 * a * (1 + e2))"
    and e2: "\<bar>e2\<bar> \<le> unit_roundoff"
    and bd1: "2 powi (- 302) \<le> \<bar>?P1 * a * (1 + e2)\<bar>" "\<bar>?P1 * a * (1 + e2)\<bar> \<le> 2 powi 302"
    using round_band [OF band_mult [OF bp1 ba]] by auto
  let ?D1 = "?P1 * a * (1 + e2)"
  have D1: "?D1 \<noteq> 0" using bd1(1) by (rule band_pos)
  obtain e3 where raw: "round_f64 (m / ?D1) = Num (m / ?D1 * (1 + e3))"
    and e3: "\<bar>e3\<bar> \<le> unit_roundoff"
    and braw: "2 powi (- 403) \<le> \<bar>m / ?D1 * (1 + e3)\<bar>" "\<bar>m / ?D1 * (1 + e3)\<bar> \<le> 2 powi 403"
    using round_band [OF band_divide [OF bm bd1]] by auto
  let ?R = "m / ?D1 * (1 + e3)"
  from fs(8) have "py_div64 (Num m) (f_mul (f_mul (Num rho) (Num v)) (Num a)) = Inr (raw64 r)"
    unfolding raw_tubes64_def m rho v a .
  then have "py_div64 (Num m) (Num ?D1) = Inr (raw64 r)"
    by (simp only: f_mul.simps p1 d1)
  then have R: "raw64 r = Num ?R"
    by (simp only: py_div64_Num [OF D1] raw sum.inject)
  define n where "n = N_per_pass64 r"
  from fs(9) have n: "n = \<lceil>?R\<rceil>" unfolding R n_def by simp
  have f1: "0 < 1 + e1" "0 < 1 + e2" "0 < 1 + e3"
    using delta_factor(3) [OF e1] delta_factor(3) [OF e2] delta_factor(3) [OF e3] by simp_all
  have D1pos: "0 < ?D1" using pos f1 by simp
  have Rpos: "0 < ?R" using pos D1pos f1 by simp
  have Rn: "?R \<le> of_int n" unfolding n by (rule le_of_int_ceiling)
  have n1: "1 \<le> n" using Rpos n by (smt (verit) zero_less_ceiling)
  have "of_int n < ?R + 1" unfolding n by linarith
  also have "\<dots> \<le> 2 powi 403 + 1"
    using order_trans [OF abs_ge_self braw(2)] by linarith
  also have "\<dots> \<le> (2::real) powi 404" by simp
  finally have bn: "2 powi 0 \<le> \<bar>real_of_int n\<bar>" "\<bar>real_of_int n\<bar> \<le> 2 powi 404"
    using n1 by simp_all
  obtain e4 where nf: "round_f64 (of_int n) = Num (of_int n * (1 + e4))"
    and e4: "\<bar>e4\<bar> \<le> unit_roundoff"
    and bfl: "2 powi (- 1) \<le> \<bar>of_int n * (1 + e4)\<bar>" "\<bar>of_int n * (1 + e4)\<bar> \<le> 2 powi 405"
    using round_band [OF bn] by auto
  let ?NF = "of_int n * (1 + e4)"
  obtain e5 where p2: "round_f64 (rho * ?NF) = Num (rho * ?NF * (1 + e5))"
    and e5: "\<bar>e5\<bar> \<le> unit_roundoff"
    and bp2: "2 powi (- 102) \<le> \<bar>rho * ?NF * (1 + e5)\<bar>" "\<bar>rho * ?NF * (1 + e5)\<bar> \<le> 2 powi 506"
    using round_band [OF band_mult [OF br bfl]] by auto
  let ?P2 = "rho * ?NF * (1 + e5)"
  obtain e6 where d2: "round_f64 (?P2 * a) = Num (?P2 * a * (1 + e6))"
    and e6: "\<bar>e6\<bar> \<le> unit_roundoff"
    and bd2: "2 powi (- 203) \<le> \<bar>?P2 * a * (1 + e6)\<bar>" "\<bar>?P2 * a * (1 + e6)\<bar> \<le> 2 powi 607"
    using round_band [OF band_mult [OF bp2 ba]] by auto
  let ?D2 = "?P2 * a * (1 + e6)"
  have D2: "?D2 \<noteq> 0" using bd2(1) by (rule band_pos)
  obtain e7 where vel: "round_f64 (m / ?D2) = Num (m / ?D2 * (1 + e7))"
    and e7: "\<bar>e7\<bar> \<le> unit_roundoff"
    using round_band [OF band_divide [OF bm bd2]] by auto
  let ?V = "m / ?D2 * (1 + e7)"
  from fs(11) have "py_div64 (Num m) (f_mul (f_mul (Num rho) (float_of_int n)) (Num a)) = Inr (velocity64 r)"
    unfolding tube_velocity64_def m rho a n_def .
  then have "py_div64 (Num m) (Num ?D2) = Inr (velocity64 r)"
    by (simp only: float_of_int_def nf f_mul.simps p2 d2)
  then have V: "velocity64 r = Num ?V"
    by (simp only: py_div64_Num [OF D2] vel sum.inject)
  have f2: "0 < 1 + e4" "0 < 1 + e5" "0 < 1 + e6" "0 < 1 + e7"
    using delta_factor(3) [OF e4] delta_factor(3) [OF e5] delta_factor(3) [OF e6]
      delta_factor(3) [OF e7] by simp_all
  define G where "G = rho * of_int n * a"
  have G: "0 < G" unfolding G_def using pos n1 by simp
  define S where "S = (1 + e1) * (1 + e2) * (1 + e7)"
  define T where "T = (1 + e3) * (1 + e4) * (1 + e5) * (1 + e6)"
  have S: "S \<le> (1 + unit_roundoff) * (1 + unit_roundoff) * (1 + unit_roundoff)"
    unfolding S_def
    using f1 f2 delta_factor(2) [OF e1] delta_factor(2) [OF e2] delta_factor(2) [OF e7]
    by (intro three_up) simp_all
  have T: "(1 - unit_roundoff) * (1 - unit_roundoff) * (1 - unit_roundoff) * (1 - unit_roundoff) \<le> T"
    unfolding T_def
    using unit_roundoff_bounds delta_factor(1) [OF e3] delta_factor(1) [OF e4]
      delta_factor(1) [OF e5] delta_factor(1) [OF e6]
    by (intro four_down) simp_all
  have Tpos: "0 < T" unfolding T_def using f1 f2 by simp
  have ST: "S \<le> (1 + 2 powi (- 50)) * T"
  proof -
    have "S \<le> (1 + 2 powi (- 50)) * ((1 - unit_roundoff) * (1 - unit_roundoff) * (1 - unit_roundoff) * (1 - unit_roundoff))"
      using S roundoff_budget by (rule order_trans)
    also have "\<dots> \<le> (1 + 2 powi (- 50)) * T"
      using T by (intro mult_left_mono) simp_all
    finally show ?thesis .
  qed
  have "m * (1 + e3) \<le> of_int n * ?D1"
    using Rn D1pos by (simp add: pos_divide_le_eq)
  then have mle: "m * (1 + e3) \<le> G * v * ((1 + e1) * (1 + e2))"
    unfolding G_def by (simp add: mult_ac)
  have D2G: "?D2 = G * ((1 + e4) * (1 + e5) * (1 + e6))"
    unfolding G_def by (simp add: mult_ac)
  have "m * (1 + e7) * (1 + e3) \<le> G * v * ((1 + e1) * (1 + e2)) * (1 + e7)"
    using mle f2(4) by (simp add: mult_ac)
  also have "\<dots> = G * v * S" unfolding S_def by (simp add: mult_ac)
  also have "\<dots> \<le> G * v * ((1 + 2 powi (- 50)) * T)"
    using ST G pos(3) by (intro mult_left_mono) simp_all
  also have "\<dots> = v * (1 + 2 powi (- 50)) * (G * ((1 + e4) * (1 + e5) * (1 + e6))) * (1 + e3)"
    unfolding T_def by (simp add: mult_ac)
  finally have "m * (1 + e7) * (1 + e3)
      \<le> v * (1 + 2 powi (- 50)) * (G * ((1 + e4) * (1 + e5) * (1 + e6))) * (1 + e3)" .
  then have "m * (1 + e7) \<le> v * (1 + 2 powi (- 50)) * (G * ((1 + e4) * (1 + e5) * (1 + e6)))"
    using f1(3) by (rule mult_right_le_imp_le)
  then have "m * (1 + e7) \<le> v * (1 + 2 powi (- 50)) * ?D2" unfolding D2G .
  moreover have "0 < ?D2" unfolding D2G using G f2 by simp
  ultimately have "?V \<le> v * (1 + 2 powi (- 50))"
    by (simp add: pos_divide_le_eq)
  with V show ?thesis by blast
qed

text \<open>The run with the target velocity of 60.63045451119822 m/s meets the conditions.\<close>

theorem velocity_le_target_witness:
  "\<exists>r. sizing64 sample_props64 fast_inputs = Inr r
     \<and> m_dot_h64 r = Num (1 / 4)
     \<and> rho_h64 r = Num (5404319552844595 / 4503599627370496)
     \<and> lit (velocity_target fast_inputs) = Num (8532977885748003 / 140737488355328)
     \<and> A_single64 r = Num (2263756080649101 / 4611686018427387904)
     \<and> moderate (1 / 4) \<and> moderate (5404319552844595 / 4503599627370496)
     \<and> moderate (8532977885748003 / 140737488355328)
     \<and> moderate (2263756080649101 / 4611686018427387904)
     \<and> (0::real) < 1 / 4 \<and> (0::real) < 5404319552844595 / 4503599627370496
     \<and> (0::real) < 8532977885748003 / 140737488355328
     \<and> (0::real) < 2263756080649101 / 4611686018427387904
     \<and> (\<exists>vel. velocity64 r = Num vel
           \<and> vel \<le> 8532977885748003 / 140737488355328 * (1 + 2 powi (- 50)))"
proof -
  have v: "lit (velocity_target fast_inputs) = Num (8532977885748003 / 140737488355328)"
    by (simp add: fast_inputs_def lit_def round_at_rules)
  have b: "moderate (1 / 4)" "moderate (5404319552844595 / 4503599627370496)"
    "moderate (8532977885748003 / 140737488355328)"
    "moderate (2263756080649101 / 4611686018427387904)"
    by (simp_all add: moderate_def)
  let ?r = "projr (sizing64 sample_props64 fast_inputs)"
  have r: "sizing64 sample_props64 fast_inputs = Inr ?r" by (simp add: fast_run)
  have m: "m_dot_h64 ?r = Num (1 / 4)" by (simp add: fast_run)
  have rho: "rho_h64 ?r = Num (5404319552844595 / 4503599627370496)" by (simp add: fast_run)
  have a: "A_single64 ?r = Num (2263756080649101 / 4611686018427387904)" by (simp add: fast_run)
  have p: "(0::real) < 1 / 4" "(0::real) < 5404319552844595 / 4503599627370496"
    "(0::real) < 8532977885748003 / 140737488355328"
    "(0::real) < 2263756080649101 / 4611686018427387904"
    by simp_all
  show ?thesis
    using r m rho v a b p velocity_le_target [OF r m rho v a p b] by blast
qed

text \<open>
  C3 as stated fails: in that run all four quantities are positive, the raw requirement
  rounds to exactly 7, seven tubes are taken, and the achieved velocity
  60.630454511198224 m/s is the float next above the target. The lines after the tube
  design go through at these inputs (shown on the model in exact arithmetic).
\<close>

theorem velocity_above_target_counterexample:
  "\<not> isl (sizing64 sample_props64 fast_inputs)
   \<and> m_dot_h64 (projr (sizing64 sample_props64 fast_inputs)) = Num (1 / 4)
   \<and> rho_h64 (projr (sizing64 sample_props64 fast_inputs))
       = Num (5404319552844595 / 4503599627370496)
   \<and> lit (D_i fast_inputs) = Num (3602879701896397 / 144115188075855872)
   \<and> lit (velocity_target fast_inputs) = Num (8532977885748003 / 140737488355328)
   \<and> raw64 (projr (sizing64 sample_props64 fast_inputs)) = Num 7
   \<and> N_per_pass64 (projr (sizing64 sample_props64 fast_inputs)) = 7
   \<and> velocity64 (projr (sizing64 sample_props64 fast_inputs))
       = Num (2133244471437001 / 35184372088832)
   \<and> (8532977885748003 / 140737488355328 :: real) < 2133244471437001 / 35184372088832
   \<and> \<not> isl (sizing sample_props fast_inputs)"
proof -
  have s: "\<not> isl (sizing sample_props fast_inputs)"
    using sample_sizing [of fast_inputs] by (auto simp: fast_inputs_def default_inputs_def)
  have d: "lit (D_i fast_inputs) = Num (3602879701896397 / 144115188075855872)"
    by (simp add: fast_inputs_def default_inputs_def lit_def round_at_rules)
  have v: "lit (velocity_target fast_inputs) = Num (8532977885748003 / 140737488355328)"
    by (simp add: fast_inputs_def lit_def round_at_rules)
  show ?thesis using s d v by (simp add: fast_run)
qed

subsection \<open>Energy balance of the auto-computed water flow\<close>

text \<open>
  C4, as the code has it: on a run with the auto-water box ticked that gets through the
  tube design, where the heat duty \<open>Q\<close> (the float product
  \<open>m_dot_h * Cp_h * (T_hot_in - T_hot_out)\<close>), the water specific heat and the water
  temperature rise are floats of magnitude between \<open>2^-100\<close> and \<open>2^100\<close>, the computed
  cooling water flow satisfies the energy balance up to rounding: the exact product
  \<open>m_dot_cold * Cp_water * (T_cold_out - T_cold_in)\<close> differs from \<open>Q\<close> by at most
  \<open>2^-51\<close> of \<open>Q\<close>. It need not equal \<open>Q\<close>.
\<close>

theorem auto_water_energy_balance:
  assumes run: "sizing64 PropsSI i = Inr r" and auto: "auto_water i"
    and cw: "PropsSI ''C'' ''T'' (T_cold_in64 r) ''P'' (P_cold64 r) ''Water'' = Inr (Num c)"
    and dt: "f_sub (T_cold_out64 r) (T_cold_in64 r) = Num d"
    and q: "Q64 r = Num q"
    and band: "moderate q" "moderate c" "moderate d"
  shows "Q64 r = f_mul (f_mul (m_dot_h64 r) (Cp_h64 r)) (f_sub (T_hot_in64 r) (T_hot_out64 r))
    \<and> (\<exists>mc. m_dot_cold64 r = Num mc \<and> \<bar>mc * c * d - q\<bar> \<le> \<bar>q\<bar> * 2 powi (- 51))"
proof -
  note fs = sizing64_InrD [OF run]
  from band have bq: "2 powi (- 100) \<le> \<bar>q\<bar>" "\<bar>q\<bar> \<le> 2 powi 100"
    and bc: "2 powi (- 100) \<le> \<bar>c\<bar>" "\<bar>c\<bar> \<le> 2 powi 100"
    and bd: "2 powi (- 100) \<le> \<bar>d\<bar>" "\<bar>d\<bar> \<le> 2 powi 100"
    by (simp_all add: moderate_def)
  obtain d1 where den: "round_f64 (c * d) = Num (c * d * (1 + d1))"
    and d1: "\<bar>d1\<bar> \<le> unit_roundoff"
    and dlo: "2 powi (- 201) \<le> \<bar>c * d * (1 + d1)\<bar>" and dhi: "\<bar>c * d * (1 + d1)\<bar> \<le> 2 powi 201"
    using round_band [OF band_mult [OF bc bd]] by auto
  let ?den = "c * d * (1 + d1)"
  have den0: "?den \<noteq> 0" using dlo by (smt (verit) zero_less_power_int)
  obtain d2 where mc: "round_f64 (q / ?den) = Num (q / ?den * (1 + d2))"
    and d2: "\<bar>d2\<bar> \<le> unit_roundoff"
    using round_band [OF band_divide [OF bq dlo dhi]] by auto
  from fs(6) auto cw have "py_div64 (Q64 r) (f_mul (Num c) (f_sub (T_cold_out64 r) (T_cold_in64 r)))
      = Inr (m_dot_cold64 r)"
    by (simp add: water_flow64_def bindE_def)
  then have m: "m_dot_cold64 r = Num (q / ?den * (1 + d2))"
    using den0 by (simp add: dt q den mc py_div64_def)
  have c0: "c \<noteq> 0" and d0: "d \<noteq> 0" using den0 by auto
  have p: "1 + d1 \<noteq> 0" using den0 by auto
  have e1: "q / ?den * (c * d) = q / (1 + d1)"
    using c0 d0 p by simp
  have "q / ?den * (1 + d2) * c * d = q / ?den * (c * d) * (1 + d2)"
    by (simp only: mult_ac)
  also have "\<dots> = q / (1 + d1) * (1 + d2)" by (simp only: e1)
  also have "\<dots> - q = q * ((1 + d2) / (1 + d1) - 1)"
    by (simp add: right_diff_distrib)
  finally have "q / ?den * (1 + d2) * c * d - q = q * ((1 + d2) / (1 + d1) - 1)" .
  then have "\<bar>q / ?den * (1 + d2) * c * d - q\<bar> = \<bar>q\<bar> * \<bar>(1 + d2) / (1 + d1) - 1\<bar>"
    by (simp add: abs_mult)
  also have "\<dots> \<le> \<bar>q\<bar> * 2 powi (- 51)"
    using delta_quotient [OF d1 d2] by (intro mult_left_mono) simp_all
  finally show ?thesis using m fs(5) by blast
qed

text \<open>The run with the hydrogen inlet at 82 degrees meets the conditions.\<close>

theorem auto_water_energy_balance_witness:
  "\<exists>r. sizing64 sample_props64 hotter_inputs = Inr r \<and> auto_water hotter_inputs
     \<and> sample_props64 ''C'' ''T'' (T_cold_in64 r) ''P'' (P_cold64 r) ''Water'' = Inr (Num 4180)
     \<and> f_sub (T_cold_out64 r) (T_cold_in64 r) = Num 5
     \<and> Q64 r = Num 151200
     \<and> moderate 151200 \<and> moderate 4180 \<and> moderate 5
     \<and> Q64 r = f_mul (f_mul (m_dot_h64 r) (Cp_h64 r)) (f_sub (T_hot_in64 r) (T_hot_out64 r))
     \<and> (\<exists>mc. m_dot_cold64 r = Num mc \<and> \<bar>mc * 4180 * 5 - 151200\<bar> \<le> \<bar>151200\<bar> * 2 powi (- 51))"
proof -
  let ?r = "projr (sizing64 sample_props64 hotter_inputs)"
  have a: "auto_water hotter_inputs" by (simp add: hotter_inputs_def default_inputs_def)
  have c: "sample_props64 ''C'' ''T'' (T_cold_in64 ?r) ''P'' (P_cold64 ?r) ''Water'' = Inr (Num 4180)"
    by (simp add: sample_props64_def lit_def round_at_rules)
  have d: "f_sub (T_cold_out64 ?r) (T_cold_in64 ?r) = Num 5"
    by (simp add: hotter_run f_sub_def round_at_rules)
  have q: "Q64 ?r = Num 151200" by (simp add: hotter_run)
  have b: "moderate 151200" "moderate 4180" "moderate 5" by (simp_all add: moderate_def)
  have r: "sizing64 sample_props64 hotter_inputs = Inr ?r" by (simp add: hotter_run)
  show ?thesis
    using r a c d q b auto_water_energy_balance [OF r a c d q b] by blast
qed

text \<open>
  C4 as stated fails: in that run \<open>Q\<close> is 151200 and the water flow is 7.23444976076555
  kg/s; its product with 4180 and 5 is not 151200, neither computed exactly nor computed
  in floats, where it is 151199.99999999997. The lines after the tube design go through at
  these inputs (shown on the model in exact arithmetic).
\<close>

theorem energy_balance_inexact_counterexample:
  "\<not> isl (sizing64 sample_props64 hotter_inputs) \<and> auto_water hotter_inputs
   \<and> Q64 (projr (sizing64 sample_props64 hotter_inputs)) = Num 151200
   \<and> sample_props64 ''C'' ''T'' (T_cold_in64 (projr (sizing64 sample_props64 hotter_inputs)))
        ''P'' (P_cold64 (projr (sizing64 sample_props64 hotter_inputs))) ''Water'' = Inr (Num 4180)
   \<and> f_sub (T_cold_out64 (projr (sizing64 sample_props64 hotter_inputs)))
        (T_cold_in64 (projr (sizing64 sample_props64 hotter_inputs))) = Num 5
   \<and> m_dot_cold64 (projr (sizing64 sample_props64 hotter_inputs))
       = Num (1018158288962947 / 140737488355328)
   \<and> (1018158288962947 / 140737488355328 :: real) * 4180 * 5 \<noteq> 151200
   \<and> f_mul (f_mul (m_dot_cold64 (projr (sizing64 sample_props64 hotter_inputs))) (Num 4180)) (Num 5)
       = Num (5195192441241599 / 34359738368)
   \<and> (5195192441241599 / 34359738368 :: real) \<noteq> 151200
   \<and> \<not> isl (sizing sample_props hotter_inputs)"
proof -
  have s: "\<not> isl (sizing sample_props hotter_inputs)"
    using sample_sizing [of hotter_inputs] by (auto simp: hotter_inputs_def default_inputs_def)
  have a: "auto_water hotter_inputs" by (simp add: hotter_inputs_def default_inputs_def)
  have c: "sample_props64 ''C'' ''T'' T ''P'' p ''Water'' = Inr (Num 4180)" for T p
    by (simp add: sample_props64_def lit_def round_at_rules)
  show ?thesis using s a c by (simp add: hotter_run f_sub_def round_at_rules)
qed

end
